theory Spec2Isabelle
  imports Main "HOL-Library.Word"
begin

unbundle bit_operations_syntax

section \<open>Common data\<close>

text \<open>
  The Python exceptions that the modelled functions can raise.  A function that can raise
  returns \<open>py_error + 'a\<close>, with \<open>Inl\<close> for the exception.
\<close>

datatype py_error =
  IndexError | StructError | UnicodeDecodeError | FileNotFoundError | TypeError | KeyError

section \<open>Depth channel: run-length encoding\<close>

text \<open>
  \<^verbatim>\<open>compile_png_to_sprite\<close> (wisp\_builder.py) and \<^verbatim>\<open>compile_png_to_spr\<close>
  (png\_to\_spr\_standalone.py) share the same encoder:
  \<^verbatim>\<open>
  depth_runs = []
  current_depth = depth_data[0]
  run_length = 1
  for i in range(1, len(depth_data)):
      if depth_data[i] == current_depth and run_length < 65535:
          run_length += 1
      else:
          depth_runs.append((current_depth, run_length))
          current_depth = depth_data[i]
          run_length = 1
  depth_runs.append((current_depth, run_length))
  \<close>
  \<open>rle_loop\<close> is the \<^verbatim>\<open>for\<close> loop over \<^verbatim>\<open>depth_data[1:]\<close> together with the
  final append; its arguments are the loop variables \<^verbatim>\<open>current_depth\<close>,
  \<^verbatim>\<open>run_length\<close> and \<^verbatim>\<open>depth_runs\<close>.  \<^verbatim>\<open>depth_data[0]\<close> raises
  \<^verbatim>\<open>IndexError\<close> on an empty list.
\<close>

type_synonym depth_run = "int \<times> nat"

fun rle_loop :: "int list \<Rightarrow> int \<Rightarrow> nat \<Rightarrow> depth_run list \<Rightarrow> depth_run list" where
  "rle_loop [] current_depth run_length depth_runs = depth_runs @ [(current_depth, run_length)]"
| "rle_loop (d # ds) current_depth run_length depth_runs =
     (if d = current_depth \<and> run_length < 65535
      then rle_loop ds current_depth (run_length + 1) depth_runs
      else rle_loop ds d 1 (depth_runs @ [(current_depth, run_length)]))"

definition rle_encode :: "int list \<Rightarrow> py_error + depth_run list" where
  "rle_encode depth_data =
     (case depth_data of
        [] \<Rightarrow> Inl IndexError
      | d # ds \<Rightarrow> Inr (rle_loop ds d 1 []))"

text \<open>
  The decoder is not part of the Python tools; it is written from the specification's
  words: each \<open>depthValue\<close> is repeated \<open>runLength\<close> times, in order.
\<close>

definition decode_runs :: "depth_run list \<Rightarrow> int list" where
  "decode_runs runs = concat (map (\<lambda>(d, n). replicate n d) runs)"

definition total_run_length :: "depth_run list \<Rightarrow> nat" where
  "total_run_length runs = sum_list (map snd runs)"

text \<open>Maximality as the specification words it: no two adjacent runs share a depth value.\<close>

fun runs_maximal :: "depth_run list \<Rightarrow> bool" where
  "runs_maximal (r1 # r2 # rs) = (fst r1 \<noteq> fst r2 \<and> runs_maximal (r2 # rs))"
| "runs_maximal rs = True"

text \<open>
  Maximality up to the 16-bit cap of the encoder: two adjacent runs may share a depth
  value only when the earlier one is full (65535 pixels).
\<close>

fun runs_maximal_capped :: "depth_run list \<Rightarrow> bool" where
  "runs_maximal_capped (r1 # r2 # rs) =
     ((fst r1 \<noteq> fst r2 \<or> snd r1 = 65535) \<and> runs_maximal_capped (r2 # rs))"
| "runs_maximal_capped rs = True"

section \<open>Bundle builder: placeholder colour quantisation\<close>

text \<open>
  \<^verbatim>\<open>compile_png_to_sprite\<close> in wisp\_builder.py, per pixel:
  \<^verbatim>\<open>
  if alpha[y, x] < 128:
      color_data.append(0)
  else:
      r, g, b = pixels[y, x]
      color_index = ((r >> 5) << 5) | ((g >> 5) << 2) | (b >> 6)
      color_data.append(min(255, max(1, color_index)))
  \<close>
  A pixel is its four channel values (r, g, b, alpha), each an integer in 0..255; no
  intermediate value of the expression exceeds 255, so the 8-bit width of the array
  elements plays no role.  The image is the list of its rows, top to bottom, and the two
  nested loops visit it in row-major order.
\<close>

type_synonym rgba = "int \<times> int \<times> int \<times> int"

fun alpha_of :: "rgba \<Rightarrow> int" where
  "alpha_of (r, g, b, a) = a"

fun builder_color_index :: "rgba \<Rightarrow> int" where
  "builder_color_index (r, g, b, a) =
     (if a < 128 then 0
      else min 255 (max 1 (push_bit 5 (drop_bit 5 r) OR push_bit 2 (drop_bit 5 g) OR drop_bit 6 b)))"

definition builder_color_data :: "rgba list list \<Rightarrow> int list" where
  "builder_color_data rows = concat (map (map builder_color_index) rows)"

section \<open>Standalone sprite compiler: palette lookup\<close>

text \<open>
  png\_to\_spr\_standalone.py keeps the loaded palette in the module-wide slot
  \<^verbatim>\<open>WLUT_DATA\<close>, which is \<^verbatim>\<open>None\<close> until \<^verbatim>\<open>load_wlut\<close> has stored a dictionary
  with the keys width, height, colors and count.  The slot is passed explicitly here, as
  a \<open>wlut option\<close>.  Colour codes are Python integers.
\<close>

record wlut =
  wlut_width :: nat
  wlut_height :: nat
  wlut_colors :: "int list"
  wlut_count :: nat

text \<open>
  \<^verbatim>\<open>
  def find_closest_transparent_index():
      if not WLUT_DATA:
          return 0
      for i, color in enumerate(WLUT_DATA['colors']):
          if color == 0x1000:
              return i
      return 0
  \<close>
\<close>

fun transparent_scan :: "int list \<Rightarrow> nat \<Rightarrow> nat" where
  "transparent_scan [] i = 0"
| "transparent_scan (color # cs) i = (if color = 0x1000 then i else transparent_scan cs (i + 1))"

definition find_closest_transparent_index :: "wlut option \<Rightarrow> nat" where
  "find_closest_transparent_index WLUT_DATA =
     (case WLUT_DATA of
        None \<Rightarrow> 0
      | Some w \<Rightarrow> transparent_scan (wlut_colors w) 0)"

text \<open>
  The pixels that \<^verbatim>\<open>compile_png_to_spr\<close> looks up are read from \<^verbatim>\<open>np.array(img)\<close> of an
  RGBA image, so the four channels of a pixel are \<^verbatim>\<open>numpy.uint8\<close> scalars, not Python
  integers.  Under the promotion rules of NumPy 2 a Python integer that meets such a
  scalar in an operation takes the scalar's type: every shift, mask, difference, product
  and sum below is an unsigned 8-bit result, arithmetic wraps at 256, and a shift by 8
  or more positions gives 0.  (Before NumPy 2 the same expressions were carried out in
  64-bit integers; the source names no NumPy version.)  \<open>uint8\<close> is the type of these
  scalars; \<open>as_uint8\<close> is the conversion of a Python integer operand, which is always
  in 0..255 where the source applies it.
\<close>

type_synonym uint8 = "8 word"

type_synonym rgba8 = "uint8 \<times> uint8 \<times> uint8 \<times> uint8"

definition as_uint8 :: "int \<Rightarrow> uint8" where
  "as_uint8 v = word_of_int v"

text \<open>
  \<^verbatim>\<open>
  def find_closest_color_index(target_rgb565):
      if not WLUT_DATA:
          return 0
      target_r = (target_rgb565 >> 11) & 0x1F
      target_g = (target_rgb565 >> 5) & 0x3F
      target_b = target_rgb565 & 0x1F
      best_index = 0
      best_distance = float('inf')
      for i, color in enumerate(WLUT_DATA['colors']):
          if color >= 0x1000 and color <= 0x1111:
              continue
          r = (color >> 11) & 0x1F
          g = (color >> 5) & 0x3F
          b = color & 0x1F
          dr = target_r - r
          dg = target_g - g
          db = target_b - b
          distance = dr*dr + dg*dg + db*db
          if distance < best_distance:
              best_distance = distance
              best_index = i
      return best_index
  \<close>
  The only caller passes the code computed in the pixel loop, a \<open>uint8\<close>; the palette
  colours are Python integers (\<^verbatim>\<open>load_wlut\<close> reads them with \<^verbatim>\<open>struct.unpack\<close>), and so are
  their channels \<open>r\<close>, \<open>g\<close>, \<open>b\<close>, each below 64.  The differences, their squares and the
  sum are \<open>uint8\<close>.  \<open>best_distance\<close> is a \<open>uint8 option\<close>, \<open>None\<close> standing for the
  initial infinity, below which every distance lies.
\<close>

definition is_magic :: "int \<Rightarrow> bool" where
  "is_magic color = (color \<ge> 0x1000 \<and> color \<le> 0x1111)"

definition target_channels :: "uint8 \<Rightarrow> uint8 \<times> uint8 \<times> uint8" where
  "target_channels target_rgb565 =
     (drop_bit 11 target_rgb565 AND 0x1F, drop_bit 5 target_rgb565 AND 0x3F,
      target_rgb565 AND 0x1F)"

definition channels565 :: "int \<Rightarrow> int \<times> int \<times> int" where
  "channels565 color = (drop_bit 11 color AND 0x1F, drop_bit 5 color AND 0x3F, color AND 0x1F)"

definition color_distance :: "uint8 \<Rightarrow> int \<Rightarrow> uint8" where
  "color_distance target_rgb565 color =
     (case target_channels target_rgb565 of (target_r, target_g, target_b) \<Rightarrow>
      case channels565 color of (r, g, b) \<Rightarrow>
        let dr = target_r - as_uint8 r; dg = target_g - as_uint8 g; db = target_b - as_uint8 b
        in dr * dr + dg * dg + db * db)"

definition below_best :: "uint8 \<Rightarrow> uint8 option \<Rightarrow> bool" where
  "below_best distance best_distance =
     (case best_distance of None \<Rightarrow> True | Some best \<Rightarrow> distance < best)"

fun closest_loop :: "uint8 \<Rightarrow> int list \<Rightarrow> nat \<Rightarrow> nat \<Rightarrow> uint8 option \<Rightarrow> nat" where
  "closest_loop target [] i best_index best_distance = best_index"
| "closest_loop target (color # cs) i best_index best_distance =
     (if is_magic color then closest_loop target cs (i + 1) best_index best_distance
      else if below_best (color_distance target color) best_distance
      then closest_loop target cs (i + 1) i (Some (color_distance target color))
      else closest_loop target cs (i + 1) best_index best_distance)"

definition find_closest_color_index :: "wlut option \<Rightarrow> uint8 \<Rightarrow> nat" where
  "find_closest_color_index WLUT_DATA target_rgb565 =
     (case WLUT_DATA of
        None \<Rightarrow> 0
      | Some w \<Rightarrow> closest_loop target_rgb565 (wlut_colors w) 0 0 None)"

text \<open>
  The pixel loop of \<^verbatim>\<open>compile_png_to_spr\<close>:
  \<^verbatim>\<open>
  r, g, b, a = rgba_array[y, x]
  if a <= 127:
      palette_index = find_closest_transparent_index()
  else:
      r_565 = (r >> 3) & 0x1F  # 5 bits
      g_565 = (g >> 2) & 0x3F  # 6 bits
      b_565 = (b >> 3) & 0x1F  # 5 bits
      rgb565 = (r_565 << 11) | (g_565 << 5) | b_565
      palette_index = find_closest_color_index(rgb565)
  color_data.append(palette_index)
  \<close>
  \<open>r\<close>, \<open>g\<close>, \<open>b\<close>, \<open>a\<close> are \<open>uint8\<close>, and so are the three truncated channels and the
  code \<open>rgb565\<close> assembled from them: the shift by 11 leaves nothing of \<open>r_565\<close> and
  the shift by 5 keeps the low three bits of \<open>g_565\<close>.
\<close>

definition pixel_rgb565 :: "uint8 \<Rightarrow> uint8 \<Rightarrow> uint8 \<Rightarrow> uint8" where
  "pixel_rgb565 r g b =
     (let r_565 = drop_bit 3 r AND 0x1F;
          g_565 = drop_bit 2 g AND 0x3F;
          b_565 = drop_bit 3 b AND 0x1F
      in push_bit 11 r_565 OR push_bit 5 g_565 OR b_565)"

fun spr_palette_index :: "wlut option \<Rightarrow> rgba8 \<Rightarrow> nat" where
  "spr_palette_index WLUT_DATA (r, g, b, a) =
     (if a \<le> 127 then find_closest_transparent_index WLUT_DATA
      else find_closest_color_index WLUT_DATA (pixel_rgb565 r g b))"

definition spr_color_data :: "wlut option \<Rightarrow> rgba8 list list \<Rightarrow> nat list" where
  "spr_color_data WLUT_DATA rows = concat (map (map (spr_palette_index WLUT_DATA)) rows)"

section \<open>Palette compiler\<close>

subsection \<open>Images\<close>

text \<open>
  What wisp\_palette\_converter.py reads of a PIL image: its size (width, height), its
  mode, whether \<^verbatim>\<open>img.info\<close> has the key \<^verbatim>\<open>transparency\<close>, its pixels and the
  result of \<^verbatim>\<open>getpalette()\<close>.  \<open>img_px img y x\<close> is the pixel in row \<open>y\<close> and
  column \<open>x\<close>, kept as four channel values; an RGB image has no fourth band and a
  single-band image (modes P and L) has only the first, and \<open>band_values\<close> gives the
  tuple PIL reports for a pixel.  \<^verbatim>\<open>convert\<close>, \<^verbatim>\<open>resize\<close> and \<^verbatim>\<open>quantize\<close> are
  library calls and are passed to the functions that use them.
\<close>

datatype image_mode = Mode_RGB | Mode_RGBA | Mode_P | Mode_L

record image =
  img_size :: "nat \<times> nat"
  img_mode :: image_mode
  img_transparency :: bool
  img_px :: "nat \<Rightarrow> nat \<Rightarrow> rgba"
  img_palette :: "int list option"

fun band_values :: "image_mode \<Rightarrow> rgba \<Rightarrow> int list" where
  "band_values Mode_RGB (r, g, b, a) = [r, g, b]"
| "band_values Mode_RGBA (r, g, b, a) = [r, g, b, a]"
| "band_values Mode_P (r, g, b, a) = [r]"
| "band_values Mode_L (r, g, b, a) = [r]"

definition image_colors :: "image \<Rightarrow> int list list" where
  "image_colors img =
     (case img_size img of (width, height) \<Rightarrow>
        concat (map (\<lambda>y. map (\<lambda>x. band_values (img_mode img) (img_px img y x)) [0..<width])
                    [0..<height]))"

text \<open>
  \<^verbatim>\<open>Image.getcolors(maxcolors)\<close>: the list of (count, colour) pairs of the colours
  used in the image, or \<^verbatim>\<open>None\<close> when there are more than \<^verbatim>\<open>maxcolors\<close> of them.
  For a single-band image Pillow reads the list off the histogram, so the colours come
  in ascending order of their value.  For an image of several bands Pillow does not
  document the order of the list; it is taken here in the order in which the colours
  last appear in the image, and nothing proved below depends on it.
\<close>

definition single_band :: "image_mode \<Rightarrow> bool" where
  "single_band m = (m = Mode_P \<or> m = Mode_L)"

definition band0 :: "int list \<Rightarrow> int" where
  "band0 color = (case color of [] \<Rightarrow> 0 | v # vs \<Rightarrow> v)"

definition colors_used :: "image \<Rightarrow> int list list" where
  "colors_used img =
     (if single_band (img_mode img) then sort_key band0 (remdups (image_colors img))
      else remdups (image_colors img))"

definition getcolors :: "image \<Rightarrow> int \<Rightarrow> (nat \<times> int list) list option" where
  "getcolors img maxcolors =
     (let px = image_colors img; cs = colors_used img
      in if int (length cs) > maxcolors then None
         else Some (map (\<lambda>c. (count_list px c, c)) cs))"

subsection \<open>Format selection\<close>

text \<open>
  \<^verbatim>\<open>
  def analyze_image(image_path):
      try:
          img = Image.open(image_path)
          width, height = img.size
          if img.mode not in ['RGB', 'RGBA']:
              img = img.convert('RGBA' if 'transparency' in img.info else 'RGB')
          if width == 64 and height == 64:
              return "LUT_64x64", img
          elif width == 32 and height == 32:
              return "LUT_32x32", img
          elif width == 16 and height == 1:
              return "PALETTE_16", img
          elif width == 64 and height == 1:
              return "PALETTE_64", img
          elif width == 256 and height == 1:
              return "PALETTE_256", img
          elif width <= 16 and height <= 16:
              return "PALETTE_SMALL", img
          else:
              colors = img.getcolors(maxcolors=256*256*256)
              color_count = len(colors) if colors else 65536
              if color_count <= 16:
                  return "PALETTE_16", img
              elif color_count <= 64:
                  return "PALETTE_64", img
              elif color_count <= 256:
                  return "PALETTE_256", img
              else:
                  return "LUT_64x64", img
      except Exception as e:
          return None, None
  \<close>
  The argument is the result of \<^verbatim>\<open>Image.open\<close>: \<open>None\<close> when it raises, which the
  handler turns into the result \<open>None\<close>.
\<close>

datatype palette_format =
  LUT_64x64 | LUT_32x32 | PALETTE_16 | PALETTE_64 | PALETTE_256 | PALETTE_SMALL

definition normalise_mode :: "(image \<Rightarrow> image_mode \<Rightarrow> image) \<Rightarrow> image \<Rightarrow> image" where
  "normalise_mode convert img =
     (if img_mode img \<noteq> Mode_RGB \<and> img_mode img \<noteq> Mode_RGBA
      then convert img (if img_transparency img then Mode_RGBA else Mode_RGB)
      else img)"

definition color_count_of :: "image \<Rightarrow> nat" where
  "color_count_of img =
     (case getcolors img (256 * 256 * 256) of
        None \<Rightarrow> 65536
      | Some colors \<Rightarrow> if colors = [] then 65536 else length colors)"

definition analyze_image ::
  "(image \<Rightarrow> image_mode \<Rightarrow> image) \<Rightarrow> image option \<Rightarrow> (palette_format \<times> image) option" where
  "analyze_image convert opened =
     (case opened of
        None \<Rightarrow> None
      | Some img0 \<Rightarrow>
          (case img_size img0 of (width, height) \<Rightarrow>
             let img = normalise_mode convert img0
             in if width = 64 \<and> height = 64 then Some (LUT_64x64, img)
                else if width = 32 \<and> height = 32 then Some (LUT_32x32, img)
                else if width = 16 \<and> height = 1 then Some (PALETTE_16, img)
                else if width = 64 \<and> height = 1 then Some (PALETTE_64, img)
                else if width = 256 \<and> height = 1 then Some (PALETTE_256, img)
                else if width \<le> 16 \<and> height \<le> 16 then Some (PALETTE_SMALL, img)
                else let color_count = color_count_of img
                     in if color_count \<le> 16 then Some (PALETTE_16, img)
                        else if color_count \<le> 64 then Some (PALETTE_64, img)
                        else if color_count \<le> 256 then Some (PALETTE_256, img)
                        else Some (LUT_64x64, img)))"

text \<open>
  The classification the specification describes for an image of no known shape: the
  smallest flat class that holds the distinct colours, else the 64x64 LUT.
\<close>

definition distinct_colors :: "image \<Rightarrow> nat" where
  "distinct_colors img = card (set (image_colors img))"

definition class_by_color_count :: "nat \<Rightarrow> palette_format" where
  "class_by_color_count n =
     (if n \<le> 16 then PALETTE_16 else if n \<le> 64 then PALETTE_64
      else if n \<le> 256 then PALETTE_256 else LUT_64x64)"

definition known_shape :: "nat \<times> nat \<Rightarrow> bool" where
  "known_shape sz = (sz \<in> {(64, 64), (32, 32), (16, 1), (64, 1), (256, 1)})"

subsection \<open>Colour tables\<close>

text \<open>
  \<^verbatim>\<open>
  def rgb888_to_rgb565(r, g, b):
      r = (r >> 3) & 0x1F
      g = (g >> 2) & 0x3F
      b = (b >> 3) & 0x1F
      return (r << 11) | (g << 5) | b
  \<close>
\<close>

definition rgb888_to_rgb565 :: "int \<Rightarrow> int \<Rightarrow> int \<Rightarrow> int" where
  "rgb888_to_rgb565 r0 g0 b0 =
     (let r = drop_bit 3 r0 AND 0x1F;
          g = drop_bit 2 g0 AND 0x3F;
          b = drop_bit 3 b0 AND 0x1F
      in push_bit 11 r OR push_bit 5 g OR b)"

text \<open>
  The function is called with Python integers by \<^verbatim>\<open>convert_to_palette\<close> and with the
  \<^verbatim>\<open>numpy.uint8\<close> elements of \<^verbatim>\<open>np.array(img)\<close> by the LUT loops.  On the latter its
  shifts and masks are 8-bit operations, as in the sprite compiler, and so is its result.
\<close>

definition rgb888_to_rgb565_uint8 :: "uint8 \<Rightarrow> uint8 \<Rightarrow> uint8 \<Rightarrow> uint8" where
  "rgb888_to_rgb565_uint8 r0 g0 b0 =
     (let r = drop_bit 3 r0 AND 0x1F;
          g = drop_bit 2 g0 AND 0x3F;
          b = drop_bit 3 b0 AND 0x1F
      in push_bit 11 r OR push_bit 5 g OR b)"

definition magic_colors :: "int list" where
  "magic_colors = [0x1000, 0x1001, 0x1002, 0x1003, 0x1004]"

text \<open>
  The LUT loops of \<^verbatim>\<open>convert_to_lut_64x64\<close> and of the 32x32 branch of \<^verbatim>\<open>main\<close>
  differ only in their three constants:
  \<^verbatim>\<open>
  for y in range(64):
      for x in range(64):
          if y == 63 and x >= 59:
              continue
          r, g, b, a = pixels[y, x]          # RGBA mode
          if a <= 127:
              lut_data.append(0x1000)
          else:
              lut_data.append(rgb888_to_rgb565(r, g, b))
  \<close>
  In every other mode the loop body is \<^verbatim>\<open>r, g, b = pixels[y, x]\<close> followed by the
  conversion; the unpacking raises \<^verbatim>\<open>TypeError\<close> on the two-dimensional array of a
  single-band image.  The channels of \<open>img_px\<close>, integers in 0..255, are the values of
  the array's 8-bit elements, on which the conversion is computed; the entry appended
  is the value of its 8-bit result.
\<close>

definition array_rgb565 :: "int \<Rightarrow> int \<Rightarrow> int \<Rightarrow> int" where
  "array_rgb565 r g b = uint (rgb888_to_rgb565_uint8 (as_uint8 r) (as_uint8 g) (as_uint8 b))"

fun lut_entry :: "image_mode \<Rightarrow> rgba \<Rightarrow> int" where
  "lut_entry Mode_RGBA (r, g, b, a) = (if a \<le> 127 then 0x1000 else array_rgb565 r g b)"
| "lut_entry m (r, g, b, a) = array_rgb565 r g b"

definition lut_scan :: "nat \<Rightarrow> nat \<Rightarrow> nat \<Rightarrow> image \<Rightarrow> int list" where
  "lut_scan n last_row first_magic img =
     concat (map (\<lambda>y. concat (map (\<lambda>x. if y = last_row \<and> x \<ge> first_magic then []
                                        else [lut_entry (img_mode img) (img_px img y x)])
                                 [0..<n]))
                 [0..<n])"

definition lut_data_of :: "nat \<Rightarrow> nat \<Rightarrow> nat \<Rightarrow> image \<Rightarrow> py_error + int list" where
  "lut_data_of n last_row first_magic img =
     (if img_mode img = Mode_RGBA \<or> img_mode img = Mode_RGB
      then Inr (lut_scan n last_row first_magic img @ magic_colors)
      else Inl TypeError)"

definition convert_to_lut_64x64 ::
  "(image \<Rightarrow> nat \<times> nat \<Rightarrow> image) \<Rightarrow> image \<Rightarrow> py_error + (int list \<times> nat \<times> nat)" where
  "convert_to_lut_64x64 resize img0 =
     (let img = (if img_size img0 \<noteq> (64, 64) then resize img0 (64, 64) else img0)
      in case lut_data_of 64 63 59 img of
           Inl e \<Rightarrow> Inl e
         | Inr lut_data \<Rightarrow> Inr (lut_data, 64, 64))"

text \<open>
  \<^verbatim>\<open>
  def convert_to_palette(img, max_colors):
      usable_colors = max_colors - 5
      if img.mode != 'P':
          img = img.quantize(colors=usable_colors-1)
      palette = img.getpalette()
      if not palette:
          colors = img.getcolors(maxcolors=usable_colors)
          if not colors:
              return None
          palette_data = []
          for count, color in sorted(colors, key=lambda x: x[0], reverse=True)[:usable_colors]:
              if isinstance(color, int):
                  palette_data.extend([color, color, color])
              else:
                  palette_data.extend(color)
      else:
          palette_data = palette[:usable_colors*3]
      rgb565_palette = []
      for i in range(0, len(palette_data), 3):
          if i + 2 < len(palette_data):
              r, g, b = palette_data[i], palette_data[i+1], palette_data[i+2]
              rgb565_palette.append(rgb888_to_rgb565(r, g, b))
      while len(rgb565_palette) < usable_colors:
          rgb565_palette.append(0x0000)
      magic_colors = [0x1000, 0x1001, 0x1002, 0x1003, 0x1004]
      rgb565_palette.extend(magic_colors)
      return rgb565_palette
  \<close>
  \<open>py_prefix k xs\<close> is the slice \<^verbatim>\<open>xs[:k]\<close>, where a negative \<open>k\<close> counts from the
  end.  Python's sort is stable and stays so with \<^verbatim>\<open>reverse=True\<close>, which is a stable
  sort on the negated count.  A colour of a single-band image is an integer, here the
  one-element tuple.  \<open>palette_regular\<close> is \<^verbatim>\<open>rgb565_palette\<close> as it stands before the
  magic colours are appended; the padding loop appends the missing number of zeros.
\<close>

definition py_prefix :: "int \<Rightarrow> 'a list \<Rightarrow> 'a list" where
  "py_prefix k xs = (if 0 \<le> k then take (nat k) xs else take (nat (int (length xs) + k)) xs)"

fun rgb565_triples :: "int list \<Rightarrow> int list" where
  "rgb565_triples (r # g # b # rest) = rgb888_to_rgb565 r g b # rgb565_triples rest"
| "rgb565_triples rest = []"

definition color_triple :: "int list \<Rightarrow> int list" where
  "color_triple color = (case color of [c] \<Rightarrow> [c, c, c] | _ \<Rightarrow> color)"

definition palette_data_of :: "image \<Rightarrow> int \<Rightarrow> int list option" where
  "palette_data_of img usable_colors =
     (case img_palette img of
        Some (v # vs) \<Rightarrow> Some (py_prefix (usable_colors * 3) (v # vs))
      | _ \<Rightarrow>
          (case getcolors img usable_colors of
             None \<Rightarrow> None
           | Some [] \<Rightarrow> None
           | Some (c # cs) \<Rightarrow>
               Some (concat (map (\<lambda>(count, color). color_triple color)
                      (py_prefix usable_colors (sort_key (\<lambda>x. - int (fst x)) (c # cs)))))))"

definition pad_palette :: "int \<Rightarrow> int list \<Rightarrow> int list" where
  "pad_palette usable_colors rgb565_palette =
     rgb565_palette @ replicate (nat (usable_colors - int (length rgb565_palette))) 0"

definition palette_regular :: "(image \<Rightarrow> int \<Rightarrow> image) \<Rightarrow> image \<Rightarrow> int \<Rightarrow> int list option" where
  "palette_regular quantize img0 max_colors =
     (let usable_colors = max_colors - 5;
          img = (if img_mode img0 \<noteq> Mode_P then quantize img0 (usable_colors - 1) else img0)
      in case palette_data_of img usable_colors of
           None \<Rightarrow> None
         | Some palette_data \<Rightarrow> Some (pad_palette usable_colors (rgb565_triples palette_data)))"

definition convert_to_palette :: "(image \<Rightarrow> int \<Rightarrow> image) \<Rightarrow> image \<Rightarrow> int \<Rightarrow> int list option" where
  "convert_to_palette quantize img max_colors =
     (case palette_regular quantize img max_colors of
        None \<Rightarrow> None
      | Some rgb565_palette \<Rightarrow> Some (rgb565_palette @ magic_colors))"

text \<open>
  The conversion step of \<^verbatim>\<open>main\<close>, by format.  \<open>Inr None\<close> is the exit with an error
  message (unsupported format, or a conversion that returned \<^verbatim>\<open>None\<close>); \<open>Inl\<close> is an
  exception.
\<close>

definition convert_by_format ::
  "(image \<Rightarrow> int \<Rightarrow> image) \<Rightarrow> (image \<Rightarrow> nat \<times> nat \<Rightarrow> image) \<Rightarrow> palette_format \<Rightarrow> image
     \<Rightarrow> py_error + int list option" where
  "convert_by_format quantize resize format_type img =
     (case format_type of
        LUT_64x64 \<Rightarrow>
          (case convert_to_lut_64x64 resize img of
             Inl e \<Rightarrow> Inl e
           | Inr (data, width, height) \<Rightarrow> Inr (Some data))
      | LUT_32x32 \<Rightarrow>
          (case lut_data_of 32 31 27 (resize img (32, 32)) of
             Inl e \<Rightarrow> Inl e
           | Inr lut_data \<Rightarrow> Inr (Some lut_data))
      | PALETTE_16 \<Rightarrow> Inr (convert_to_palette quantize img 16)
      | PALETTE_64 \<Rightarrow> Inr (convert_to_palette quantize img 64)
      | PALETTE_256 \<Rightarrow> Inr (convert_to_palette quantize img 256)
      | PALETTE_SMALL \<Rightarrow> Inr None)"

definition capacity :: "palette_format \<Rightarrow> nat" where
  "capacity format_type =
     (case format_type of
        LUT_64x64 \<Rightarrow> 64 * 64 | LUT_32x32 \<Rightarrow> 32 * 32
      | PALETTE_16 \<Rightarrow> 16 | PALETTE_64 \<Rightarrow> 64 | PALETTE_256 \<Rightarrow> 256 | PALETTE_SMALL \<Rightarrow> 0)"


text \<open>
  The entries of a table that precede the magic colours, as the converter computed them.
\<close>

definition regular_colors ::
  "(image \<Rightarrow> int \<Rightarrow> image) \<Rightarrow> (image \<Rightarrow> nat \<times> nat \<Rightarrow> image) \<Rightarrow> palette_format \<Rightarrow> image
     \<Rightarrow> int list option" where
  "regular_colors quantize resize format_type img =
     (case format_type of
        LUT_64x64 \<Rightarrow>
          Some (lut_scan 64 63 59 (if img_size img \<noteq> (64, 64) then resize img (64, 64) else img))
      | LUT_32x32 \<Rightarrow> Some (lut_scan 32 31 27 (resize img (32, 32)))
      | PALETTE_16 \<Rightarrow> palette_regular quantize img 16
      | PALETTE_64 \<Rightarrow> palette_regular quantize img 64
      | PALETTE_256 \<Rightarrow> palette_regular quantize img 256
      | PALETTE_SMALL \<Rightarrow> None)"

subsection \<open>Stand-ins for the library calls, used in the examples\<close>

definition solid_image :: "nat \<times> nat \<Rightarrow> image_mode \<Rightarrow> rgba \<Rightarrow> image" where
  "solid_image sz m c =
     \<lparr>img_size = sz, img_mode = m, img_transparency = False, img_px = (\<lambda>y x. c), img_palette = None\<rparr>"

definition relabel :: "image \<Rightarrow> image_mode \<Rightarrow> image" where
  "relabel img m = img\<lparr>img_mode := m\<rparr>"

definition indexed_image :: "int list \<Rightarrow> image" where
  "indexed_image palette =
     \<lparr>img_size = (2, 1), img_mode = Mode_P, img_transparency = False,
      img_px = (\<lambda>y x. (int x, 0, 0, 0)), img_palette = Some palette\<rparr>"

definition keep_image :: "image \<Rightarrow> int \<Rightarrow> image" where
  "keep_image img colors = img"

definition set_size :: "image \<Rightarrow> nat \<times> nat \<Rightarrow> image" where
  "set_size img sz = img\<lparr>img_size := sz\<rparr>"

section \<open>Bytes, strings and binary packing\<close>

text \<open>
  A Python \<^verbatim>\<open>bytes\<close> value is a list of 8-bit characters, so \<^verbatim>\<open>b'WISP'\<close> is
  \<open>''WISP''\<close>.  A Python \<^verbatim>\<open>str\<close> is represented by its UTF-8 encoding: \<^verbatim>\<open>encode('utf-8')\<close>
  is then the identity, two strings are equal exactly when their encodings are, and
  \<^verbatim>\<open>decode('utf-8')\<close> succeeds exactly on the well-formed byte sequences, which
  \<open>utf8_valid\<close> recognises (RFC 3629: shortest forms only, no surrogates, nothing above
  U+10FFFF).
\<close>

type_synonym bytes = string

definition bind_err :: "py_error + 'a \<Rightarrow> ('a \<Rightarrow> py_error + 'b) \<Rightarrow> py_error + 'b" where
  "bind_err m f = (case m of Inl e \<Rightarrow> Inl e | Inr x \<Rightarrow> f x)"

definition byte_in :: "char \<Rightarrow> nat \<Rightarrow> nat \<Rightarrow> bool" where
  "byte_in c lo hi = (lo \<le> (of_char c :: nat) \<and> (of_char c :: nat) \<le> hi)"

fun utf8_valid :: "bytes \<Rightarrow> bool" where
  "utf8_valid [] = True"
| "utf8_valid [c] = byte_in c 0x00 0x7F"
| "utf8_valid [c, c1] =
     (if byte_in c 0x00 0x7F then utf8_valid [c1]
      else byte_in c 0xC2 0xDF \<and> byte_in c1 0x80 0xBF)"
| "utf8_valid [c, c1, c2] =
     (if byte_in c 0x00 0x7F then utf8_valid [c1, c2]
      else if byte_in c 0xC2 0xDF then byte_in c1 0x80 0xBF \<and> utf8_valid [c2]
      else if byte_in c 0xE0 0xE0 then byte_in c1 0xA0 0xBF \<and> byte_in c2 0x80 0xBF
      else if byte_in c 0xED 0xED then byte_in c1 0x80 0x9F \<and> byte_in c2 0x80 0xBF
      else byte_in c 0xE1 0xEF \<and> byte_in c1 0x80 0xBF \<and> byte_in c2 0x80 0xBF)"
| "utf8_valid (c # c1 # c2 # c3 # cs) =
     (if byte_in c 0x00 0x7F then utf8_valid (c1 # c2 # c3 # cs)
      else if byte_in c 0xC2 0xDF then byte_in c1 0x80 0xBF \<and> utf8_valid (c2 # c3 # cs)
      else if byte_in c 0xE0 0xE0
        then byte_in c1 0xA0 0xBF \<and> byte_in c2 0x80 0xBF \<and> utf8_valid (c3 # cs)
      else if byte_in c 0xED 0xED
        then byte_in c1 0x80 0x9F \<and> byte_in c2 0x80 0xBF \<and> utf8_valid (c3 # cs)
      else if byte_in c 0xE1 0xEF
        then byte_in c1 0x80 0xBF \<and> byte_in c2 0x80 0xBF \<and> utf8_valid (c3 # cs)
      else if byte_in c 0xF0 0xF0
        then byte_in c1 0x90 0xBF \<and> byte_in c2 0x80 0xBF \<and> byte_in c3 0x80 0xBF \<and> utf8_valid cs
      else if byte_in c 0xF4 0xF4
        then byte_in c1 0x80 0x8F \<and> byte_in c2 0x80 0xBF \<and> byte_in c3 0x80 0xBF \<and> utf8_valid cs
      else byte_in c 0xF1 0xF3
        \<and> byte_in c1 0x80 0xBF \<and> byte_in c2 0x80 0xBF \<and> byte_in c3 0x80 0xBF \<and> utf8_valid cs)"

definition decode_utf8 :: "bytes \<Rightarrow> py_error + string" where
  "decode_utf8 bs = (if utf8_valid bs then Inr bs else Inl UnicodeDecodeError)"

text \<open>
  \<^verbatim>\<open>struct.pack\<close> and \<^verbatim>\<open>struct.unpack\<close> for little-endian formats (\<^verbatim>\<open><\<close>, no
  alignment).  A format is the list of its items: \<open>Fmt_uint n\<close> for the unsigned
  formats \<^verbatim>\<open>B\<close>, \<^verbatim>\<open>H\<close>, \<^verbatim>\<open>I\<close>/\<^verbatim>\<open>L\<close> (n = 1, 2, 4), \<open>Fmt_s n\<close> for \<^verbatim>\<open>ns\<close>, which
  takes the first n bytes and pads with zero bytes, and \<open>Fmt_x n\<close> for n pad bytes,
  which take no value; a repeat count as in \<^verbatim>\<open>6L\<close> stands for that many items.
  Packing raises \<^verbatim>\<open>struct.error\<close> when the number or kind of the values does not fit
  the format or an integer is outside the range of its item; unpacking raises it on a
  buffer of the wrong length.
\<close>

fun le_bytes :: "nat \<Rightarrow> int \<Rightarrow> bytes" where
  "le_bytes 0 v = []"
| "le_bytes (Suc k) v = char_of (v mod 256) # le_bytes k (v div 256)"

fun le_value :: "bytes \<Rightarrow> nat" where
  "le_value [] = 0"
| "le_value (c # cs) = of_char c + 256 * le_value cs"

definition pack_uint :: "nat \<Rightarrow> int \<Rightarrow> py_error + bytes" where
  "pack_uint k v = (if 0 \<le> v \<and> v < 256 ^ k then Inr (le_bytes k v) else Inl StructError)"

definition unpack_uint :: "nat \<Rightarrow> bytes \<Rightarrow> py_error + nat" where
  "unpack_uint k bs = (if length bs = k then Inr (le_value bs) else Inl StructError)"

definition pack_s :: "nat \<Rightarrow> bytes \<Rightarrow> bytes" where
  "pack_s n bs = take n bs @ replicate (n - length bs) (CHR 0x00)"

datatype fmt_item = Fmt_uint nat | Fmt_s nat | Fmt_x nat

datatype py_value = PyInt int | PyBytes bytes

fun struct_pack :: "fmt_item list \<Rightarrow> py_value list \<Rightarrow> py_error + bytes" where
  "struct_pack [] [] = Inr []"
| "struct_pack (Fmt_x n # fmt) values =
     bind_err (struct_pack fmt values) (\<lambda>rest. Inr (replicate n (CHR 0x00) @ rest))"
| "struct_pack (Fmt_uint n # fmt) (PyInt v # values) =
     bind_err (pack_uint n v) (\<lambda>packed.
     bind_err (struct_pack fmt values) (\<lambda>rest. Inr (packed @ rest)))"
| "struct_pack (Fmt_s n # fmt) (PyBytes bs # values) =
     bind_err (struct_pack fmt values) (\<lambda>rest. Inr (pack_s n bs @ rest))"
| "struct_pack fmt values = Inl StructError"

text \<open>The slice \<^verbatim>\<open>xs[a:b]\<close> for indices \<open>0 \<le> a\<close> and \<open>0 \<le> b\<close>; it never raises.\<close>

definition py_slice :: "'a list \<Rightarrow> nat \<Rightarrow> nat \<Rightarrow> 'a list" where
  "py_slice xs a b = take (b - a) (drop a xs)"

definition rstrip_nul :: "bytes \<Rightarrow> bytes" where
  "rstrip_nul bs = rev (dropWhile (\<lambda>c. c = CHR 0x00) (rev bs))"

section \<open>Bundle container\<close>

subsection \<open>Writer (wisp\_builder.py)\<close>

text \<open>
  An entry is the dictionary built by \<^verbatim>\<open>collect_assets\<close>; the writer packs it with
  \<^verbatim>\<open>ENTRY_STRUCT = '<32sIIBB6s'\<close> (48 bytes) after the header
  \<^verbatim>\<open>HEADER_STRUCT = '<4sHHI'\<close> (12 bytes) and the configuration:
  \<^verbatim>\<open>
  def write_wisp_bundle(entries, payloads, config_data, output_file):
      with open(output_file, 'wb') as f:
          version = 0x0100
          config_size = len(config_data) if config_data else 0
          f.write(struct.pack(HEADER_STRUCT, MAGIC, version, len(entries), config_size))
          if config_data:
              f.write(config_data)
          for e in entries:
              f.write(struct.pack(ENTRY_STRUCT, e['name'], e['offset'], e['size'],
                                e['type'], e['flags'], e['reserved']))
          for p in payloads:
              f.write(p)
  \<close>
  The result is the content of the file that the \<^verbatim>\<open>with\<close> block leaves behind, or the
  exception raised while packing.
\<close>

record entry =
  e_name :: bytes
  e_offset :: nat
  e_size :: nat
  e_type :: nat
  e_flags :: nat
  e_reserved :: bytes

definition ENTRY_STRUCT :: "fmt_item list" where
  "ENTRY_STRUCT = [Fmt_s 32, Fmt_uint 4, Fmt_uint 4, Fmt_uint 1, Fmt_uint 1, Fmt_s 6]"

definition HEADER_STRUCT :: "fmt_item list" where
  "HEADER_STRUCT = [Fmt_s 4, Fmt_uint 2, Fmt_uint 2, Fmt_uint 4]"

definition pack_entry :: "entry \<Rightarrow> py_error + bytes" where
  "pack_entry e =
     struct_pack ENTRY_STRUCT
       [PyBytes (e_name e), PyInt (int (e_offset e)), PyInt (int (e_size e)),
        PyInt (int (e_type e)), PyInt (int (e_flags e)), PyBytes (e_reserved e)]"

fun pack_entries :: "entry list \<Rightarrow> py_error + bytes" where
  "pack_entries [] = Inr []"
| "pack_entries (e # es) =
     bind_err (pack_entry e) (\<lambda>packed.
     bind_err (pack_entries es) (\<lambda>rest. Inr (packed @ rest)))"

definition write_wisp_bundle :: "entry list \<Rightarrow> bytes list \<Rightarrow> bytes option \<Rightarrow> py_error + bytes" where
  "write_wisp_bundle entries payloads config_data =
     (let config_bytes = (case config_data of None \<Rightarrow> [] | Some c \<Rightarrow> c);
          config_size = length config_bytes
      in bind_err (struct_pack HEADER_STRUCT
                     [PyBytes ''WISP'', PyInt 0x0100, PyInt (int (length entries)),
                      PyInt (int config_size)]) (\<lambda>header.
         bind_err (pack_entries entries) (\<lambda>table.
           Inr (header @ config_bytes @ table @ concat payloads))))"

text \<open>
  After the block, with the file complete, the function prints a summary of the bundle,
  for which it decodes the name of every entry:
  \<^verbatim>\<open>
  for e in entries:
      name = e['name'].rstrip(b'\x00').decode('utf-8')
  \<close>
  \<open>summary_names\<close> is this loop.  It raises \<^verbatim>\<open>UnicodeDecodeError\<close> on a name that is not
  valid UTF-8, as is a name that \<^verbatim>\<open>collect_assets\<close> has cut inside a multi-byte
  character; the call then ends with that exception, the file already written.
\<close>

fun summary_names :: "entry list \<Rightarrow> py_error + string list" where
  "summary_names [] = Inr []"
| "summary_names (e # es) =
     bind_err (decode_utf8 (rstrip_nul (e_name e))) (\<lambda>name.
     bind_err (summary_names es) (\<lambda>rest. Inr (name # rest)))"

text \<open>
  \<^verbatim>\<open>collect_assets(root_folder)\<close>.  Of the folder it reads the two candidate
  configuration files (\<open>None\<close> when the file does not exist) and the files that
  \<^verbatim>\<open>os.walk\<close> lists, in its order with the names of each directory sorted.  A file is
  given by its name, its path relative to the root with \<^verbatim>\<open>/\<close> as separator, its
  content and, for a PNG, the result of \<^verbatim>\<open>compile_png_to_sprite\<close>.
  \<^verbatim>\<open>
  config_files = ['config.yaml', 'config.yml']
  for cf in config_files:
      config_path = os.path.join(root_folder, cf)
      if os.path.exists(config_path):
          with open(config_path, 'rb') as f:
              config_data = f.read()
          break
  if not config_data:
      raise FileNotFoundError("No configuration file found (config.yaml or config.yml)")
  for dirpath, _, filenames in os.walk(root_folder):
      for fname in sorted(filenames):
          if fname in ['config.yaml', 'config.yml', 'config.json']:
              continue
          _, ext = os.path.splitext(fname)
          ext = ext.lower()
          if ext not in ASSET_TYPE:
              continue
          if ext == '.png':
              sprite_data = compile_png_to_sprite(fpath, root_folder)
              data = sprite_data if sprite_data else <content of the file>
          else:
              data = <content of the file>
          entry = {'name': rel_path.encode('utf-8')[:31].ljust(32, b'\x00'),
                   'offset': offset, 'size': len(data), 'type': ASSET_TYPE[ext],
                   'flags': 0, 'reserved': b'\x00\x00\x00\x00\x00\x00'}
          entries.append(entry); payloads.append(data); offset += len(data)
  return entries, payloads, config_data
  \<close>
  \<open>splitext_ext\<close> is the second component of \<^verbatim>\<open>os.path.splitext\<close> on a name without
  directory part: the text from the last dot on, unless only dots precede that dot.
  \<open>lower\<close> maps the ASCII capitals; no other character has a lower-case form inside
  one of the extensions of the table.
\<close>

definition ASSET_TYPE :: "(string \<times> nat) list" where
  "ASSET_TYPE =
     [(''.wlut'', 0x01), (''.art'', 0x02), (''.png'', 0x02), (''.tilemap'', 0x03),
      (''.sfx'', 0x04), (''.wav'', 0x04), (''.ogg'', 0x04), (''.font'', 0x05),
      (''.yaml'', 0x06), (''.yml'', 0x06), (''.ash'', 0x07), (''.wash'', 0x08),
      (''.level'', 0x09), (''.depth'', 0x0A)]"

definition splitext_ext :: "string \<Rightarrow> string" where
  "splitext_ext fname =
     (let r = rev fname;
          suffix = takeWhile (\<lambda>c. c \<noteq> CHR ''.'') r
      in case dropWhile (\<lambda>c. c \<noteq> CHR ''.'') r of
           [] \<Rightarrow> []
         | dot # stem \<Rightarrow>
             if list_ex (\<lambda>c. c \<noteq> CHR ''.'') stem then CHR ''.'' # rev suffix else [])"

definition lower_char :: "char \<Rightarrow> char" where
  "lower_char c =
     (if byte_in c 0x41 0x5A then char_of ((of_char c :: nat) + 32) else c)"

definition lower :: "string \<Rightarrow> string" where
  "lower s = map lower_char s"

record asset_file =
  f_name :: string
  f_rel_path :: string
  f_data :: bytes
  f_sprite :: "bytes option"

record app_folder =
  config_yaml :: "bytes option"
  config_yml :: "bytes option"
  walk :: "asset_file list"

definition make_entry :: "string \<Rightarrow> nat \<Rightarrow> nat \<Rightarrow> nat \<Rightarrow> entry" where
  "make_entry rel_path offset data_len asset_type =
     \<lparr>e_name = take 31 rel_path @ replicate (32 - length (take 31 rel_path)) (CHR 0x00),
      e_offset = offset, e_size = data_len, e_type = asset_type, e_flags = 0,
      e_reserved = replicate 6 (CHR 0x00)\<rparr>"

fun collect_loop ::
  "asset_file list \<Rightarrow> entry list \<Rightarrow> bytes list \<Rightarrow> nat \<Rightarrow> entry list \<times> bytes list" where
  "collect_loop [] entries payloads offset = (entries, payloads)"
| "collect_loop (f # fs) entries payloads offset =
     (if f_name f \<in> set [''config.yaml'', ''config.yml'', ''config.json'']
      then collect_loop fs entries payloads offset
      else let ext = lower (splitext_ext (f_name f))
           in case map_of ASSET_TYPE ext of
                None \<Rightarrow> collect_loop fs entries payloads offset
              | Some asset_type \<Rightarrow>
                  let data = (if ext = ''.png''
                              then (case f_sprite f of
                                      None \<Rightarrow> f_data f
                                    | Some sprite_data \<Rightarrow>
                                        if sprite_data \<noteq> [] then sprite_data else f_data f)
                              else f_data f)
                  in collect_loop fs
                       (entries @ [make_entry (f_rel_path f) offset (length data) asset_type])
                       (payloads @ [data]) (offset + length data))"

definition collect_assets :: "app_folder \<Rightarrow> py_error + (entry list \<times> bytes list \<times> bytes)" where
  "collect_assets root_folder =
     (let config_data = (case config_yaml root_folder of
                           Some content \<Rightarrow> Some content
                         | None \<Rightarrow> config_yml root_folder)
      in case config_data of
           None \<Rightarrow> Inl FileNotFoundError
         | Some content \<Rightarrow>
             if content = [] then Inl FileNotFoundError
             else case collect_loop (walk root_folder) [] [] 0 of
                    (entries, payloads) \<Rightarrow> Inr (entries, payloads, content))"

text \<open>
  The build, as the script runs it once \<^verbatim>\<open>validate_app_config\<close> has accepted the
  folder: collect, then write.  (When the validation fails the script exits before it
  collects anything.)
\<close>

definition build_bundle :: "app_folder \<Rightarrow> py_error + bytes" where
  "build_bundle root_folder =
     bind_err (collect_assets root_folder) (\<lambda>(entries, payloads, config_data).
       write_wisp_bundle entries payloads (Some config_data))"

subsection \<open>Reader (wisp\_verifier.py)\<close>

text \<open>
  \<^verbatim>\<open>
  def extract_asset(wisp_file, asset_name, output_path):
      with open(wisp_file, 'rb') as f:
          data = f.read()
      magic = data[0:4]
      if magic != b'WISP':
          return False
      entry_count = struct.unpack('<H', data[6:8])[0]
      header_size = 16
      data_start = header_size + (entry_count * 48)
      for i in range(entry_count):
          entry_offset = header_size + (i * 48)
          name = data[entry_offset:entry_offset+32].rstrip(b'\x00').decode('utf-8')
          if name == asset_name:
              offset = struct.unpack('<I', data[entry_offset+32:entry_offset+36])[0]
              size = struct.unpack('<I', data[entry_offset+36:entry_offset+40])[0]
              asset_start = data_start + offset
              asset_data = data[asset_start:asset_start+size]
              with open(output_path, 'wb') as out:
                  out.write(asset_data)
              return True
      return False
  \<close>
  The argument is the content of the file.  \<open>Inr (Some asset_data)\<close> is the result
  \<^verbatim>\<open>True\<close> with the bytes written to the output file, \<open>Inr None\<close> the result
  \<^verbatim>\<open>False\<close>.  \<open>extract_loop\<close> is the \<^verbatim>\<open>for\<close> loop from index \<open>i\<close> with the number of
  iterations still to run.
\<close>

definition entry_name_at :: "bytes \<Rightarrow> nat \<Rightarrow> py_error + string" where
  "entry_name_at data i =
     (let entry_offset = 16 + i * 48
      in decode_utf8 (rstrip_nul (py_slice data entry_offset (entry_offset + 32))))"

definition entry_offset_at :: "bytes \<Rightarrow> nat \<Rightarrow> py_error + nat" where
  "entry_offset_at data i =
     (let entry_offset = 16 + i * 48
      in unpack_uint 4 (py_slice data (entry_offset + 32) (entry_offset + 36)))"

definition entry_size_at :: "bytes \<Rightarrow> nat \<Rightarrow> py_error + nat" where
  "entry_size_at data i =
     (let entry_offset = 16 + i * 48
      in unpack_uint 4 (py_slice data (entry_offset + 36) (entry_offset + 40)))"

fun extract_loop :: "bytes \<Rightarrow> string \<Rightarrow> nat \<Rightarrow> nat \<Rightarrow> nat \<Rightarrow> py_error + bytes option" where
  "extract_loop data asset_name data_start i 0 = Inr None"
| "extract_loop data asset_name data_start i (Suc remaining) =
     bind_err (entry_name_at data i) (\<lambda>name.
       if name = asset_name
       then bind_err (entry_offset_at data i) (\<lambda>offset.
            bind_err (entry_size_at data i) (\<lambda>size.
              let asset_start = data_start + offset
              in Inr (Some (py_slice data asset_start (asset_start + size)))))
       else extract_loop data asset_name data_start (i + 1) remaining)"

definition extract_asset :: "bytes \<Rightarrow> string \<Rightarrow> py_error + bytes option" where
  "extract_asset data asset_name =
     (if py_slice data 0 4 \<noteq> ''WISP'' then Inr None
      else bind_err (unpack_uint 2 (py_slice data 6 8)) (\<lambda>entry_count.
             let header_size = 16;
                 data_start = header_size + entry_count * 48
             in extract_loop data asset_name data_start 0 entry_count))"

text \<open>Building a bundle from a folder and extracting one asset from the written file.\<close>

definition build_and_extract :: "app_folder \<Rightarrow> string \<Rightarrow> py_error + bytes option" where
  "build_and_extract root_folder asset_name =
     bind_err (build_bundle root_folder) (\<lambda>data. extract_asset data asset_name)"

section \<open>ROM builder (wisp\_rom\_builder.py)\<close>

text \<open>
  \<^verbatim>\<open>
  class WispROMBuilder:
      def __init__(self):
          self.assets = []
          self.config_data = ""

      def set_config(self, config_file):
          if not os.path.exists(config_file):
              raise FileNotFoundError(f"Config file not found: {config_file}")
          with open(config_file, 'r') as f:
              self.config_data = f.read()

      def build_rom(self, output_path):
          config_bytes = self.config_data.encode('utf-8')
          header_size = 12
          config_size = len(config_bytes)
          entry_table = bytearray()
          asset_data = bytearray()
          current_offset = 0
          for asset in self.assets:
              name_bytes = asset['name'].encode('utf-8')[:31]
              name_padded = name_bytes + b'\x00' * (32 - len(name_bytes))
              entry = struct.pack('<32sIIBB6x', name_padded, current_offset,
                                  len(asset['data']), asset['type'], asset['flags'])
              entry_table.extend(entry)
              asset_data.extend(asset['data'])
              current_offset += len(asset['data'])
          header = struct.pack('<IIHHI', self.MAGIC_WISP, 1, len(self.assets), config_size, 0)
          with open(output_path, 'wb') as f:
              f.write(header)
              f.write(config_bytes)
              f.write(entry_table)
              f.write(asset_data)
  \<close>
  The builder object is a record of its two attributes; a method returns the new
  state, and \<^verbatim>\<open>build_rom\<close> the content of the file it writes.  The argument of
  \<open>set_config\<close> is the text of the configuration file, \<open>None\<close> when there is no such
  file.
\<close>

record rom_asset =
  a_name :: string
  a_data :: bytes
  a_type :: nat
  a_flags :: nat

record rom_builder =
  rb_assets :: "rom_asset list"
  rb_config_data :: string

definition WispROMBuilder_init :: rom_builder where
  "WispROMBuilder_init = \<lparr>rb_assets = [], rb_config_data = []\<rparr>"

definition set_config :: "rom_builder \<Rightarrow> string option \<Rightarrow> py_error + rom_builder" where
  "set_config self config_file =
     (case config_file of
        None \<Rightarrow> Inl FileNotFoundError
      | Some text \<Rightarrow> Inr (self\<lparr>rb_config_data := text\<rparr>))"

fun rom_entries :: "rom_asset list \<Rightarrow> nat \<Rightarrow> py_error + (bytes \<times> bytes)" where
  "rom_entries [] current_offset = Inr ([], [])"
| "rom_entries (asset # assets) current_offset =
     (let name_bytes = take 31 (a_name asset);
          name_padded = name_bytes @ replicate (32 - length name_bytes) (CHR 0x00)
      in bind_err (struct_pack [Fmt_s 32, Fmt_uint 4, Fmt_uint 4, Fmt_uint 1, Fmt_uint 1, Fmt_x 6]
                     [PyBytes name_padded, PyInt (int current_offset),
                      PyInt (int (length (a_data asset))), PyInt (int (a_type asset)),
                      PyInt (int (a_flags asset))]) (\<lambda>entry.
         bind_err (rom_entries assets (current_offset + length (a_data asset)))
           (\<lambda>(entry_table, asset_data).
              Inr (entry @ entry_table, a_data asset @ asset_data))))"

definition build_rom :: "rom_builder \<Rightarrow> py_error + bytes" where
  "build_rom self =
     (let config_bytes = rb_config_data self;
          config_size = length config_bytes
      in bind_err (rom_entries (rb_assets self) 0) (\<lambda>(entry_table, asset_data).
         bind_err (struct_pack [Fmt_uint 4, Fmt_uint 4, Fmt_uint 2, Fmt_uint 2, Fmt_uint 4]
                     [PyInt 0x50534957, PyInt 1, PyInt (int (length (rb_assets self))),
                      PyInt (int config_size), PyInt 0]) (\<lambda>header.
           Inr (header @ config_bytes @ entry_table @ asset_data))))"

section \<open>Keyed record database (wisp\_rom\_builder\_v2.py)\<close>

text \<open>
  A record of the input data is a dictionary; \<^verbatim>\<open>d['id']\<close> raises \<^verbatim>\<open>KeyError\<close> when
  the key is missing and \<^verbatim>\<open>d.get(key, default)\<close> gives the default.  A field is
  \<open>None\<close> when the dictionary has no such key.
\<close>

record item =
  item_id :: "int option"
  item_name :: "string option"
  item_description :: "string option"
  item_type :: "int option"
  item_rarity :: "int option"
  item_value :: "int option"
  item_properties :: "int option"

record quest =
  quest_id :: "int option"
  quest_title :: "string option"
  quest_description :: "string option"
  quest_required_level :: "int option"

record map_def =
  map_id :: "int option"
  map_name :: "string option"
  map_width :: "int option"
  map_height :: "int option"

record poke =
  poke_id :: "int option"
  poke_name :: "string option"
  poke_type1 :: "int option"
  poke_type2 :: "int option"
  poke_base_hp :: "int option"
  poke_base_attack :: "int option"
  poke_base_defense :: "int option"
  poke_base_speed :: "int option"

text \<open>
  The dictionary \<^verbatim>\<open>self.string_pool\<close> keeps its keys in insertion order; it is the
  association list of its items in that order.
  \<^verbatim>\<open>
  def add_string(self, text: str) -> int:
      """Add string to pool and return offset"""
      if text in self.string_pool:
          return self.string_pool[text]
      offset = len(self.string_pool)
      self.string_pool[text] = offset
      return offset
  \<close>
\<close>

type_synonym string_pool = "(string \<times> nat) list"

record rom_builder_v2 =
  items :: "item list"
  quests :: "quest list"
  maps :: "map_def list"
  pokemon :: "poke list"
  string_pool :: string_pool

definition add_string :: "string_pool \<Rightarrow> string \<Rightarrow> nat \<times> string_pool" where
  "add_string pool text =
     (case map_of pool text of
        Some offset \<Rightarrow> (offset, pool)
      | None \<Rightarrow> (length pool, pool @ [(text, length pool)]))"

definition get_or :: "'a option \<Rightarrow> 'a \<Rightarrow> 'a" where
  "get_or field dflt = (case field of None \<Rightarrow> dflt | Some v \<Rightarrow> v)"

definition require :: "'a option \<Rightarrow> py_error + 'a" where
  "require field = (case field of None \<Rightarrow> Inl KeyError | Some v \<Rightarrow> Inr v)"

text \<open>
  \<^verbatim>\<open>
  def _make_key(self, namespace, category, id):
      return (namespace << 24) | (category << 16) | id

  def _pack_item(self, item):
      name_offset = self.add_string(item.get('name', ''))
      desc_offset = self.add_string(item.get('description', ''))
      return struct.pack('<HBBHHH', name_offset, item.get('type', 1), item.get('rarity', 1),
                         item.get('value', 0), item.get('properties', 0), desc_offset)
  \<close>
  A function that interns strings takes the pool and returns the new one beside its
  result.
\<close>

definition make_key :: "int \<Rightarrow> int \<Rightarrow> int \<Rightarrow> int" where
  "make_key namespace category ident = push_bit 24 namespace OR push_bit 16 category OR ident"

definition pack_item :: "string_pool \<Rightarrow> item \<Rightarrow> py_error + (bytes \<times> string_pool)" where
  "pack_item pool0 it =
     (case add_string pool0 (get_or (item_name it) []) of (name_offset, pool1) \<Rightarrow>
      case add_string pool1 (get_or (item_description it) []) of (desc_offset, pool2) \<Rightarrow>
        bind_err (struct_pack
                    [Fmt_uint 2, Fmt_uint 1, Fmt_uint 1, Fmt_uint 2, Fmt_uint 2, Fmt_uint 2]
                    [PyInt (int name_offset), PyInt (get_or (item_type it) 1),
                     PyInt (get_or (item_rarity it) 1), PyInt (get_or (item_value it) 0),
                     PyInt (get_or (item_properties it) 0), PyInt (int desc_offset)])
          (\<lambda>packed. Inr (packed, pool2)))"

text \<open>
  The entry header \<^verbatim>\<open>struct.pack('<LBBH', key, 0x06, 0x01, len(entry_data))\<close> followed
  by the entry data.
\<close>

definition pack_keyed_entry :: "int \<Rightarrow> bytes \<Rightarrow> py_error + bytes" where
  "pack_keyed_entry key entry_data =
     bind_err (struct_pack [Fmt_uint 4, Fmt_uint 1, Fmt_uint 1, Fmt_uint 2]
                 [PyInt key, PyInt 0x06, PyInt 0x01, PyInt (int (length entry_data))])
       (\<lambda>entry_header. Inr (entry_header @ entry_data))"

definition item_entry :: "string_pool \<Rightarrow> item \<Rightarrow> py_error + (int \<times> bytes \<times> string_pool)" where
  "item_entry pool it =
     bind_err (require (item_id it)) (\<lambda>ident.
       let key = make_key 0x01 0x01 ident
       in bind_err (pack_item pool it) (\<lambda>(entry_data, pool').
          bind_err (pack_keyed_entry key entry_data) (\<lambda>packed. Inr (key, packed, pool'))))"

definition quest_entry :: "string_pool \<Rightarrow> quest \<Rightarrow> py_error + (int \<times> bytes \<times> string_pool)" where
  "quest_entry pool0 q =
     bind_err (require (quest_id q)) (\<lambda>ident.
       let key = make_key 0x01 0x02 ident
       in case add_string pool0 (get_or (quest_title q) []) of (title_offset, pool1) \<Rightarrow>
          case add_string pool1 (get_or (quest_description q) []) of (desc_offset, pool2) \<Rightarrow>
            bind_err (struct_pack [Fmt_uint 2, Fmt_uint 2, Fmt_uint 2]
                        [PyInt (int title_offset), PyInt (get_or (quest_required_level q) 1),
                         PyInt (int desc_offset)]) (\<lambda>entry_data.
            bind_err (pack_keyed_entry key entry_data) (\<lambda>packed.
              Inr (key, packed, pool2))))"

definition map_entry :: "string_pool \<Rightarrow> map_def \<Rightarrow> py_error + (int \<times> bytes \<times> string_pool)" where
  "map_entry pool0 m =
     bind_err (require (map_id m)) (\<lambda>ident.
       let key = make_key 0x03 0x04 ident
       in case add_string pool0 (get_or (map_name m) []) of (name_offset, pool1) \<Rightarrow>
            bind_err (struct_pack [Fmt_uint 2, Fmt_uint 2, Fmt_uint 2]
                        [PyInt (int name_offset), PyInt (get_or (map_width m) 20),
                         PyInt (get_or (map_height m) 20)]) (\<lambda>entry_data.
            bind_err (pack_keyed_entry key entry_data) (\<lambda>packed.
              Inr (key, packed, pool1))))"

definition poke_entry :: "string_pool \<Rightarrow> poke \<Rightarrow> py_error + (int \<times> bytes \<times> string_pool)" where
  "poke_entry pool0 p =
     bind_err (require (poke_id p)) (\<lambda>ident.
       let key = make_key 0x01 0x07 ident
       in case add_string pool0 (get_or (poke_name p) []) of (name_offset, pool1) \<Rightarrow>
            bind_err (struct_pack
                        [Fmt_uint 2, Fmt_uint 1, Fmt_uint 1, Fmt_uint 2, Fmt_uint 2, Fmt_uint 2,
                         Fmt_uint 2]
                        [PyInt (int name_offset), PyInt (get_or (poke_type1 p) 0),
                         PyInt (get_or (poke_type2 p) 0), PyInt (get_or (poke_base_hp p) 50),
                         PyInt (get_or (poke_base_attack p) 50),
                         PyInt (get_or (poke_base_defense p) 50),
                         PyInt (get_or (poke_base_speed p) 50)]) (\<lambda>entry_data.
            bind_err (pack_keyed_entry key entry_data) (\<lambda>packed.
              Inr (key, packed, pool1))))"

text \<open>
  One of the four loops of \<^verbatim>\<open>generate_rom\<close>: each record appends its entry to
  \<^verbatim>\<open>rom_data\<close> and its key to \<^verbatim>\<open>entries\<close>, and may grow the pool.
\<close>

fun emit_all ::
  "(string_pool \<Rightarrow> 'r \<Rightarrow> py_error + (int \<times> bytes \<times> string_pool)) \<Rightarrow> 'r list
     \<Rightarrow> bytes \<times> int list \<times> string_pool \<Rightarrow> py_error + (bytes \<times> int list \<times> string_pool)" where
  "emit_all emit [] state = Inr state"
| "emit_all emit (r # rs) (rom_data, entries, pool) =
     bind_err (emit pool r) (\<lambda>(key, packed, pool').
       emit_all emit rs (rom_data @ packed, entries @ [key], pool'))"

text \<open>
  \<^verbatim>\<open>
  def generate_rom(self, max_size: int = 6144) -> bytes:
      rom_data = bytearray()
      rom_data.extend(b'WRPV')
      rom_data.extend(struct.pack('<H', 2))
      rom_data.extend(b'\x00' * 26)
      string_data = bytearray()
      for text in sorted(self.string_pool.keys(), key=lambda x: self.string_pool[x]):
          string_data.extend(text.encode('utf-8'))
          string_data.append(0)
      rom_data.extend(string_data)
      entries = []
      for item in self.items: ...
      for quest in self.quests: ...
      for map_def in self.maps: ...
      for poke in self.pokemon: ...
      entry_count = len(entries)
      data_size = len(rom_data) - 32
      checksum = sum(rom_data[32:]) & 0xFFFFFFFF
      header_data = struct.pack('<HLLLL6L', entry_count, data_size, checksum, 0,
                                data_size - len(string_data), 0, 0, 0, 0, 0, 0, 0)
      rom_data[6:32] = header_data
      return bytes(rom_data)
  \<close>
  The string pool is serialised from the pool as it is when the method is entered; the
  loops intern their strings afterwards.  The header format \<^verbatim>\<open><HLLLL6L\<close> has eleven
  items (\<open>header_format\<close>) and is given the twelve values of the call.  The slice
  assignment replaces the 26 bytes from position 6 by the packed header data.  The
  result is the ROM and the builder with the pool the call leaves behind.
\<close>

definition serialize_pool :: "string_pool \<Rightarrow> bytes" where
  "serialize_pool pool = concat (map (\<lambda>text. text @ [CHR 0x00]) (map fst (sort_key snd pool)))"

definition checksum_of :: "bytes \<Rightarrow> int" where
  "checksum_of bs = int (sum_list (map of_char bs)) AND 0xFFFFFFFF"

definition header_format :: "fmt_item list" where
  "header_format = Fmt_uint 2 # replicate 4 (Fmt_uint 4) @ replicate 6 (Fmt_uint 4)"

definition generate_rom :: "rom_builder_v2 \<Rightarrow> py_error + (bytes \<times> rom_builder_v2)" where
  "generate_rom self =
     bind_err (struct_pack [Fmt_uint 2] [PyInt 2]) (\<lambda>version.
       let rom0 = ''WRPV'' @ version @ replicate 26 (CHR 0x00);
           string_data = serialize_pool (string_pool self)
       in bind_err (emit_all item_entry (items self) (rom0 @ string_data, [], string_pool self))
            (\<lambda>s1.
          bind_err (emit_all quest_entry (quests self) s1) (\<lambda>s2.
          bind_err (emit_all map_entry (maps self) s2) (\<lambda>s3.
          bind_err (emit_all poke_entry (pokemon self) s3) (\<lambda>(rom_data, entries, pool).
            let entry_count = int (length entries);
                data_size = int (length rom_data) - 32;
                checksum = checksum_of (drop 32 rom_data)
            in bind_err (struct_pack header_format
                           [PyInt entry_count, PyInt data_size, PyInt checksum, PyInt 0,
                            PyInt (data_size - int (length string_data)), PyInt 0,
                            PyInt 0, PyInt 0, PyInt 0, PyInt 0, PyInt 0, PyInt 0])
                 (\<lambda>header_data.
                    Inr (take 6 rom_data @ header_data @ drop 32 rom_data,
                         self\<lparr>string_pool := pool\<rparr>)))))))"

text \<open>
  What the specification asks of a string reference: the byte offset of the string's
  first byte in the serialised pool, the strings being laid out in the given order,
  each followed by its terminator.
\<close>

fun pool_byte_offset :: "string list \<Rightarrow> string \<Rightarrow> nat option" where
  "pool_byte_offset [] text = None"
| "pool_byte_offset (s # ss) text =
     (if s = text then Some 0
      else map_option (\<lambda>n. length s + 1 + n) (pool_byte_offset ss text))"

section \<open>Example inputs\<close>

text \<open>
  An application folder with the configuration file \<^verbatim>\<open>config.yaml\<close> of the given
  content and the single asset \<^verbatim>\<open>a.wash\<close>.
\<close>

definition a_wash :: asset_file where
  "a_wash = \<lparr>f_name = ''a.wash'', f_rel_path = ''a.wash'', f_data = ''abc'', f_sprite = None\<rparr>"

definition config_file :: "bytes \<Rightarrow> asset_file" where
  "config_file config =
     \<lparr>f_name = ''config.yaml'', f_rel_path = ''config.yaml'', f_data = config,
      f_sprite = None\<rparr>"

definition one_asset_folder :: "bytes \<Rightarrow> app_folder" where
  "one_asset_folder config =
     \<lparr>config_yaml = Some config, config_yml = None, walk = [a_wash, config_file config]\<rparr>"



text \<open>The names (without the padding) and the payloads that a build collects.\<close>

definition collected :: "app_folder \<Rightarrow> py_error + (string list \<times> bytes list)" where
  "collected root_folder =
     bind_err (collect_assets root_folder) (\<lambda>(entries, payloads, config_data).
       Inr (map (\<lambda>e. rstrip_nul (e_name e)) entries, payloads))"

text \<open>A folder without configuration file, and a ROM builder that was given one asset
  and no configuration.\<close>

definition unconfigured_folder :: "asset_file list \<Rightarrow> app_folder" where
  "unconfigured_folder files = \<lparr>config_yaml = None, config_yml = None, walk = files\<rparr>"

definition one_asset_builder :: rom_builder where
  "one_asset_builder =
     WispROMBuilder_init\<lparr>rb_assets :=
       [\<lparr>a_name = ''a.dat'', a_data = ''x'', a_type = 0x06, a_flags = 0\<rparr>]\<rparr>"

text \<open>A database with one item, whose name and description are two different strings.\<close>

definition potion :: item where
  "potion =
     \<lparr>item_id = Some 1, item_name = Some ''ab'', item_description = Some ''cd'',
      item_type = None, item_rarity = None, item_value = None, item_properties = None\<rparr>"

definition one_item_builder :: rom_builder_v2 where
  "one_item_builder =
     \<lparr>items = [potion], quests = [], maps = [], pokemon = [], string_pool = []\<rparr>"

section \<open>Properties of the run-length encoder\<close>

lemma decode_runs_append:
  "decode_runs (xs @ ys) = decode_runs xs @ decode_runs ys"
  by (simp add: decode_runs_def)

lemma total_run_length_append:
  "total_run_length (xs @ ys) = total_run_length xs + total_run_length ys"
  by (simp add: total_run_length_def)

lemma decode_rle_loop:
  "decode_runs (rle_loop ds cur n runs) = decode_runs runs @ replicate n cur @ ds"
proof (induction ds arbitrary: cur n runs)
  case Nil
  show ?case by (simp add: decode_runs_def)
next
  case (Cons d ds)
  show ?case
  proof (cases "d = cur \<and> n < 65535")
    case True
    then show ?thesis
      using Cons.IH [of cur "n + 1" runs] by (simp add: replicate_app_Cons_same)
  next
    case False
    then show ?thesis
      using Cons.IH [of d 1 "runs @ [(cur, n)]"] by (auto simp: decode_runs_append decode_runs_def)
  qed
qed

lemma total_rle_loop:
  "total_run_length (rle_loop ds cur n runs) = total_run_length runs + n + length ds"
  by (induction ds arbitrary: cur n runs) (auto simp: total_run_length_def)

text \<open>
  Claim C3.  For every non-empty depth sequence of length width * height the encoder
  returns a run list (it does not raise); the run lengths sum to width * height, and
  repeating each depth value run-length times, in order, gives back the sequence.
\<close>

theorem rle_roundtrip:
  assumes "depth_data \<noteq> []" and "length depth_data = width * height"
  shows "\<exists>runs. rle_encode depth_data = Inr runs
           \<and> total_run_length runs = width * height
           \<and> decode_runs runs = depth_data"
proof -
  from assms(1) obtain d ds where dd: "depth_data = d # ds"
    by (cases depth_data) auto
  have enc: "rle_encode depth_data = Inr (rle_loop ds d 1 [])"
    by (simp add: dd rle_encode_def)
  have "total_run_length [] = 0" and nil: "decode_runs [] = []"
    by (simp_all add: total_run_length_def decode_runs_def)
  then have "total_run_length (rle_loop ds d 1 []) = length depth_data"
    by (simp add: total_rle_loop dd)
  moreover have "decode_runs (rle_loop ds d 1 []) = depth_data"
    by (simp add: decode_rle_loop dd nil)
  ultimately show ?thesis
    using enc assms(2) by simp
qed

theorem rle_roundtrip_witness:
  "rle_encode [6, 6, 6, 4, 4, 7] = Inr [(6, 3), (4, 2), (7, 1)]
   \<and> decode_runs [(6, 3), (4, 2), (7, 1)] = [6, 6, 6, 4, 4, 7]
   \<and> (\<exists>runs. rle_encode [6, 6, 6, 4, 4, 7] = Inr runs
         \<and> total_run_length runs = 3 * 2
         \<and> decode_runs runs = [6, 6, 6, 4, 4, 7])"
proof -
  have enc: "rle_encode [6, 6, 6, 4, 4, 7] = Inr [(6, 3), (4, 2), (7, 1)]"
    by (simp add: rle_encode_def)
  have dec: "decode_runs [(6, 3), (4, 2), (7, 1)] = [6, 6, 6, 4, 4, 7]"
    by code_simp
  have "length [6, 6, 6, 4, 4, 7 :: int] = 3 * 2" and "[6, 6, 6, 4, 4, 7 :: int] \<noteq> []"
    by simp_all
  with rle_roundtrip [of "[6, 6, 6, 4, 4, 7]" 3 2] enc dec show ?thesis
    by blast
qed

lemma rle_loop_replicate:
  "n + k \<le> 65535 \<Longrightarrow>
   rle_loop (replicate k d @ rest) d n runs = rle_loop rest d (n + k) runs"
  by (induction k arbitrary: n) auto

lemma rle_encode_full_run:
  "rle_encode (replicate 65536 6) = Inr [(6, 65535), (6, 1)]"
proof -
  have "replicate 65536 (6::int) = 6 # (replicate 65534 6 @ [6])"
    by (simp add: replicate_app_Cons_same flip: replicate_Suc)
  then have "rle_encode (replicate 65536 6) = Inr (rle_loop (replicate 65534 6 @ [6]) 6 1 [])"
    by (simp add: rle_encode_def)
  also have "rle_loop (replicate 65534 6 @ [6]) 6 1 [] = rle_loop [6] 6 (1 + 65534) []"
    by (rule rle_loop_replicate) simp
  also have "\<dots> = [(6, 65535), (6, 1)]"
    by simp
  finally show ?thesis .
qed

lemma capped_snoc_last:
  "runs_maximal_capped (rs @ [(c, n)]) \<Longrightarrow> runs_maximal_capped (rs @ [(c, m)])"
  by (induction rs rule: runs_maximal_capped.induct) auto

lemma capped_snoc2:
  "runs_maximal_capped (rs @ [(c, n)]) \<Longrightarrow> c \<noteq> d \<or> n = 65535 \<Longrightarrow>
   runs_maximal_capped (rs @ [(c, n), (d, m)])"
  by (induction rs rule: runs_maximal_capped.induct) auto

lemma capped_rle_loop:
  "runs_maximal_capped (runs @ [(cur, n)]) \<Longrightarrow> n \<le> 65535 \<Longrightarrow>
   runs_maximal_capped (rle_loop ds cur n runs)"
proof (induction ds arbitrary: cur n runs)
  case Nil
  then show ?case by simp
next
  case (Cons d ds)
  show ?case
  proof (cases "d = cur \<and> n < 65535")
    case True
    then have step: "rle_loop (d # ds) cur n runs = rle_loop ds cur (n + 1) runs"
      by simp
    have "runs_maximal_capped (runs @ [(cur, n + 1)])"
      using Cons.prems(1) by (rule capped_snoc_last)
    then have "runs_maximal_capped (rle_loop ds cur (n + 1) runs)"
      using True by (intro Cons.IH) simp_all
    with step show ?thesis by simp
  next
    case False
    then have step: "rle_loop (d # ds) cur n runs = rle_loop ds d 1 (runs @ [(cur, n)])"
      by auto
    from False Cons.prems(2) have "cur \<noteq> d \<or> n = 65535" by auto
    with Cons.prems(1) have "runs_maximal_capped ((runs @ [(cur, n)]) @ [(d, 1)])"
      using capped_snoc2 [of runs cur n d 1] by simp
    then have "runs_maximal_capped (rle_loop ds d 1 (runs @ [(cur, n)]))"
      by (rule Cons.IH) simp
    with step show ?thesis by simp
  qed
qed

text \<open>
  Claim C4, as stated, fails: a run is cut at 65535 pixels, so 65536 equal depth values
  (a flat 256x256 depth map) are encoded as two adjacent runs of the same depth.
\<close>

theorem rle_not_maximal_counterexample:
  "rle_encode (replicate 65536 6) = Inr [(6, 65535), (6, 1)]
   \<and> \<not> runs_maximal [(6, 65535), (6, 1)]"
  using rle_encode_full_run by simp

text \<open>
  Claim C4, amended.  In the run list of every depth sequence, two adjacent runs carry
  the same depth value only when the earlier of the two has the full length 65535.
\<close>

theorem rle_runs_maximal_capped:
  "rle_encode depth_data = Inr runs \<Longrightarrow> runs_maximal_capped runs"
  using capped_rle_loop [of "[]" _ 1]
  by (auto simp: rle_encode_def split: list.splits)

theorem rle_runs_maximal_capped_witness:
  "rle_encode (replicate 65536 6) = Inr [(6, 65535), (6, 1)]
   \<and> runs_maximal_capped [(6, 65535), (6, 1)]"
  using rle_runs_maximal_capped [OF rle_encode_full_run] rle_encode_full_run by simp

section \<open>Properties of the bundle builder's colour indices\<close>

lemma builder_color_data_map:
  "builder_color_data rows = map builder_color_index (concat rows)"
  by (simp add: builder_color_data_def map_concat)

text \<open>
  Claim C10.  In the pixel loop of the bundle builder a pixel with alpha below 128 gets
  index 0 and a pixel with alpha of 128 or more gets an index from 1 to 255; so index 0
  stands for transparent pixels only.  The second part says the same of the whole
  colour data, pixel by pixel in row-major order.
\<close>

theorem builder_index_zero_iff_transparent:
  "(a < 128 \<longrightarrow> builder_color_index (r, g, b, a) = 0)
   \<and> (128 \<le> a \<longrightarrow> 1 \<le> builder_color_index (r, g, b, a) \<and> builder_color_index (r, g, b, a) \<le> 255)
   \<and> (builder_color_index (r, g, b, a) = 0 \<longleftrightarrow> a < 128)
   \<and> list_all2 (\<lambda>p c. (alpha_of p < 128 \<longrightarrow> c = 0) \<and> (128 \<le> alpha_of p \<longrightarrow> 1 \<le> c \<and> c \<le> 255))
        (concat rows) (builder_color_data rows)"
proof -
  have pix: "(alpha_of p < 128 \<longrightarrow> builder_color_index p = 0)
      \<and> (128 \<le> alpha_of p \<longrightarrow> 1 \<le> builder_color_index p \<and> builder_color_index p \<le> 255)" for p
    by (cases p) auto
  have "list_all2 (\<lambda>p c. (alpha_of p < 128 \<longrightarrow> c = 0) \<and> (128 \<le> alpha_of p \<longrightarrow> 1 \<le> c \<and> c \<le> 255))
          (concat rows) (map builder_color_index (concat rows))"
    unfolding list_all2_map2 by (rule list_all2_refl) (rule pix)
  then show ?thesis
    using pix [of "(r, g, b, a)"] by (auto simp: builder_color_data_map)
qed

theorem builder_index_zero_iff_transparent_witness:
  "builder_color_data [[(255, 0, 0, 255), (9, 9, 9, 127)], [(0, 0, 0, 128), (255, 255, 255, 255)]]
     = [224, 0, 1, 255]
   \<and> builder_color_index (0, 0, 0, 128) = 1 \<and> builder_color_index (9, 9, 9, 127) = 0"
proof -
  have "builder_color_index (255, 0, 0, 255) = 224" "builder_color_index (255, 255, 255, 255) = 255"
    by simp_all
  moreover have "builder_color_index (0, 0, 0, 128) = 1"
    using builder_index_zero_iff_transparent [of 128 0 0 0 "[]"] by simp
  moreover have "builder_color_index (9, 9, 9, 127) = 0"
    using builder_index_zero_iff_transparent [of 127 9 9 9 "[]"] by simp
  ultimately show ?thesis
    by (simp add: builder_color_data_def)
qed

section \<open>Properties of the standalone sprite compiler\<close>

lemma push_bit_11_uint8: "push_bit 11 (x :: uint8) = 0"
  by (rule bit_word_eqI) (simp add: bit_push_bit_iff)

lemma drop_bit_11_uint8: "drop_bit 11 (x :: uint8) = 0"
  by (rule bit_word_eqI) (simp add: bit_drop_bit_eq bit_word_iff_drop_bit_and)

text \<open>
  The red channel never reaches the code of a pixel, and the red channel that
  \<open>find_closest_color_index\<close> reads back from the code is 0.
\<close>

lemma pixel_rgb565_drops_red:
  "pixel_rgb565 r g b = push_bit 5 (drop_bit 2 g AND 0x3F) OR (drop_bit 3 b AND 0x1F)"
  by (simp add: pixel_rgb565_def push_bit_11_uint8)

lemma target_channels_red_zero:
  "target_channels t = (0, drop_bit 5 t AND 0x3F, t AND 0x1F)"
  by (simp add: target_channels_def drop_bit_11_uint8)

text \<open>
  Claim C6.  The claim has every pixel with alpha above 127 turned into its RGB565 code
  by 5-6-5 truncation and mapped to the first palette entry outside the magic range with
  the least squared distance over the three channels, so that the 2x2 image of the
  scenario, against the palette red, blue, white, transparent sentinel, compiles to
  [0, 3, 1, 2].  The source computes the code and the distances on 8-bit scalars: the
  red, blue and white pixels get the codes 0, 31 and 255 instead of 0xF800, 0x001F and
  0xFFFF; the distances of the red pixel to red, blue and white come out as 193, 193
  and 3, those of the white pixel as 179, 49 and 1; and the image compiles to
  [2, 3, 1, 2].
\<close>

theorem spr_scenario_wraps:
  "spr_color_data
     (Some \<lparr>wlut_width = 2, wlut_height = 2,
            wlut_colors = [0xF800, 0x001F, 0xFFFF, 0x1000], wlut_count = 4\<rparr>)
     [[(255, 0, 0, 255), (0, 255, 0, 64)], [(0, 0, 255, 255), (255, 255, 255, 255)]]
   = [2, 3, 1, 2]
   \<and> map uint [pixel_rgb565 255 0 0, pixel_rgb565 0 0 255, pixel_rgb565 255 255 255]
     = [0, 31, 255]
   \<and> map (\<lambda>color. uint (color_distance (pixel_rgb565 255 0 0) color)) [0xF800, 0x001F, 0xFFFF]
     = [193, 193, 3]
   \<and> map (\<lambda>color. uint (color_distance (pixel_rgb565 255 255 255) color)) [0xF800, 0x001F, 0xFFFF]
     = [179, 49, 1]"
  by code_simp

section \<open>Properties of the palette compiler\<close>

lemma color_count_of_distinct:
  assumes "image_colors img \<noteq> []"
  shows "class_by_color_count (color_count_of img) = class_by_color_count (distinct_colors img)"
proof -
  have len: "length (colors_used img) = distinct_colors img"
    by (simp add: colors_used_def distinct_colors_def length_remdups_card_conv)
  have "length (colors_used img) = length (remdups (image_colors img))"
    by (simp add: colors_used_def)
  then have ne: "colors_used img \<noteq> []"
    using assms by (cases "colors_used img") auto
  show ?thesis
  proof (cases "int (distinct_colors img) > 256 * 256 * 256")
    case True
    then show ?thesis
      using len by (simp add: color_count_of_def getcolors_def class_by_color_count_def Let_def)
  next
    case False
    then show ?thesis
      using len ne by (simp add: color_count_of_def getcolors_def Let_def)
  qed
qed

text \<open>
  Claim C7, amended.  For every source image with at least one pixel whose dimensions
  match none of the five known shapes and are not both at most 16 (such images are
  classed \<^verbatim>\<open>PALETTE_SMALL\<close>), the format is chosen by the number of distinct colours
  of the image (after its mode has been normalised to RGB or RGBA): the smallest flat
  class among 16, 64 and 256 that holds them, and the 64x64 LUT above 256 colours.
\<close>

theorem analyze_image_by_color_count:
  assumes "img_size img = (width, height)"
    and "\<not> known_shape (width, height)"
    and "\<not> (width \<le> 16 \<and> height \<le> 16)"
    and "image_colors (normalise_mode convert img) \<noteq> []"
  shows "analyze_image convert (Some img)
         = Some (class_by_color_count (distinct_colors (normalise_mode convert img)),
                 normalise_mode convert img)"
proof -
  have "analyze_image convert (Some img)
        = Some (class_by_color_count (color_count_of (normalise_mode convert img)),
                normalise_mode convert img)"
    using assms(1-3)
    by (auto simp: analyze_image_def known_shape_def class_by_color_count_def Let_def)
  then show ?thesis
    using color_count_of_distinct [OF assms(4)] by simp
qed

theorem analyze_image_by_color_count_witness:
  "analyze_image relabel (Some (solid_image (20, 20) Mode_RGB (1, 2, 3, 255)))
   = Some (PALETTE_16, solid_image (20, 20) Mode_RGB (1, 2, 3, 255))"
proof -
  let ?img = "solid_image (20, 20) Mode_RGB (1, 2, 3, 255)"
  have n: "normalise_mode relabel ?img = ?img"
    by (simp add: normalise_mode_def solid_image_def)
  have "img_size ?img = (20, 20)" "\<not> known_shape (20, 20)" "\<not> (20 \<le> (16::nat) \<and> 20 \<le> (16::nat))"
    by (simp_all add: solid_image_def known_shape_def)
  moreover have "image_colors (normalise_mode relabel ?img) \<noteq> []"
    unfolding n by (simp add: image_colors_def solid_image_def upt_conv_Cons)
  ultimately have "analyze_image relabel (Some ?img)
      = Some (class_by_color_count (distinct_colors (normalise_mode relabel ?img)),
              normalise_mode relabel ?img)"
    by (rule analyze_image_by_color_count)
  moreover have "class_by_color_count (distinct_colors ?img) = PALETTE_16"
    by code_simp
  ultimately show ?thesis
    by (simp add: n)
qed

text \<open>
  Claim C7, as stated, fails: an 8x8 image matches none of the five known shapes, yet it
  is not classed by its colour count (one colour would give the 16-entry palette) but as
  \<^verbatim>\<open>PALETTE_SMALL\<close>, by the branch for images of at most 16x16 pixels.
\<close>

theorem analyze_image_small_counterexample:
  "\<not> known_shape (8, 8)
   \<and> analyze_image relabel (Some (solid_image (8, 8) Mode_RGB (1, 2, 3, 255)))
     = Some (PALETTE_SMALL, solid_image (8, 8) Mode_RGB (1, 2, 3, 255))
   \<and> class_by_color_count (distinct_colors (solid_image (8, 8) Mode_RGB (1, 2, 3, 255)))
     = PALETTE_16"
proof -
  have "class_by_color_count (distinct_colors (solid_image (8, 8) Mode_RGB (1, 2, 3, 255)))
     = PALETTE_16"
    by code_simp
  then show ?thesis
    by (simp add: analyze_image_def normalise_mode_def solid_image_def known_shape_def)
qed

lemma lut_row_min:
  "length (concat (map (\<lambda>x. if fm \<le> x then [] else [f x]) [0..<n])) = min fm n"
  by (induction n) auto

lemma lut_row_last:
  "fm \<le> n \<Longrightarrow> length (concat (map (\<lambda>x. if fm \<le> x then [] else [f x]) [0..<n])) = fm"
  by (simp add: lut_row_min)

lemma lut_row_full:
  "y \<noteq> lr \<Longrightarrow> length (concat (map (\<lambda>x. if y = lr \<and> fm \<le> x then [] else [f x]) xs)) = length xs"
  by (induction xs) auto

lemma length_lut_scan:
  assumes "fm \<le> Suc m"
  shows "length (lut_scan (Suc m) m fm img) = m * Suc m + fm"
proof -
  define row where "row y = concat (map (\<lambda>x. if y = m \<and> fm \<le> x then []
                 else [lut_entry (img_mode img) (img_px img y x)]) [0..<Suc m])" for y
  have scan: "lut_scan (Suc m) m fm img = concat (map row [0..<Suc m])"
    unfolding lut_scan_def row_def ..
  have full: "length (row y) = Suc m" if "y \<in> set [0..<m]" for y
  proof -
    from that have "y \<noteq> m" by simp
    then show ?thesis
      unfolding row_def by (subst lut_row_full) simp_all
  qed
  have "map (\<lambda>y. length (row y)) [0..<m] = map (\<lambda>y. Suc m) [0..<m]"
    by (rule map_cong) (simp_all only: full)
  then have "sum_list (map (\<lambda>y. length (row y)) [0..<m]) = sum_list (map (\<lambda>y. Suc m) [0..<m])"
    by (simp only:)
  then have rows: "sum_list (map (\<lambda>y. length (row y)) [0..<m]) = m * Suc m"
    by (simp only: sum_list_triv) simp
  have last: "length (row m) = fm"
    unfolding row_def by (simp add: lut_row_last [OF assms] del: upt_Suc)
  have "length (concat (map row [0..<Suc m]))
        = sum_list (map (\<lambda>y. length (row y)) [0..<m]) + length (row m)"
    by (simp add: length_concat comp_def)
  then show ?thesis
    by (simp only: scan rows last)
qed

lemma length_lut_64: "length (lut_scan 64 63 59 img) = 4091"
  using length_lut_scan [of 59 63 img] by simp

lemma length_lut_32: "length (lut_scan 32 31 27 img) = 1019"
  using length_lut_scan [of 27 31 img] by simp

lemma length_pad_palette: "nat usable \<le> length (pad_palette usable xs)"
  by (simp add: pad_palette_def)

lemma palette_regular_length:
  "palette_regular quantize img max_colors = Some regular \<Longrightarrow> nat (max_colors - 5) \<le> length regular"
  by (auto simp: palette_regular_def Let_def length_pad_palette split: option.splits)

lemma drop_magic: "drop (length (xs @ magic_colors) - 5) (xs @ magic_colors) = magic_colors"
  by (simp add: magic_colors_def)

lemma convert_by_format_split:
  assumes "convert_by_format quantize resize format_type img = Inr (Some data)"
  shows "\<exists>regular. regular_colors quantize resize format_type img = Some regular
           \<and> data = regular @ [0x1000, 0x1001, 0x1002, 0x1003, 0x1004]
           \<and> capacity format_type - 5 \<le> length regular
           \<and> (format_type = LUT_64x64 \<or> format_type = LUT_32x32
                \<longrightarrow> length data = capacity format_type)"
proof (cases format_type)
  case LUT_64x64
  then show ?thesis
    using assms
    by (auto simp: convert_by_format_def convert_to_lut_64x64_def lut_data_of_def regular_colors_def
          capacity_def magic_colors_def length_lut_64 Let_def split: if_splits sum.splits)
next
  case LUT_32x32
  then show ?thesis
    using assms
    by (auto simp: convert_by_format_def lut_data_of_def regular_colors_def
          capacity_def magic_colors_def length_lut_32 split: if_splits sum.splits)
next
  case PALETTE_16
  then show ?thesis
    using assms palette_regular_length [of quantize img 16]
    by (auto simp: convert_by_format_def convert_to_palette_def regular_colors_def
          capacity_def magic_colors_def split: option.splits)
next
  case PALETTE_64
  then show ?thesis
    using assms palette_regular_length [of quantize img 64]
    by (auto simp: convert_by_format_def convert_to_palette_def regular_colors_def
          capacity_def magic_colors_def split: option.splits)
next
  case PALETTE_256
  then show ?thesis
    using assms palette_regular_length [of quantize img 256]
    by (auto simp: convert_by_format_def convert_to_palette_def regular_colors_def
          capacity_def magic_colors_def split: option.splits)
next
  case PALETTE_SMALL
  then show ?thesis
    using assms by (simp add: convert_by_format_def)
qed

text \<open>
  Claim C5.  In every table the converter produces, for each of the five formats, the
  last five entries are exactly 0x1000, 0x1001, 0x1002, 0x1003, 0x1004, and the entries
  before them are the regular entries computed from the image, in their order.  The
  table has at least as many entries as the capacity of its format, and a LUT has
  exactly its width * height entries, so that the magic codes sit in its last five
  raster positions.
\<close>

theorem palette_table_magic_tail:
  assumes "convert_by_format quantize resize format_type img = Inr (Some data)"
  shows "5 \<le> length data
     \<and> drop (length data - 5) data = [0x1000, 0x1001, 0x1002, 0x1003, 0x1004]
     \<and> regular_colors quantize resize format_type img = Some (take (length data - 5) data)
     \<and> capacity format_type \<le> length data
     \<and> (format_type = LUT_64x64 \<or> format_type = LUT_32x32
          \<longrightarrow> length data = capacity format_type)"
proof -
  from convert_by_format_split [OF assms] obtain regular where
    reg: "regular_colors quantize resize format_type img = Some regular"
    and data: "data = regular @ [0x1000, 0x1001, 0x1002, 0x1003, 0x1004]"
    and cap: "capacity format_type - 5 \<le> length regular"
    and lut: "format_type = LUT_64x64 \<or> format_type = LUT_32x32
                \<longrightarrow> length data = capacity format_type"
    by blast
  have len: "length data = length regular + 5"
    by (simp add: data)
  have "drop (length data - 5) data = [0x1000, 0x1001, 0x1002, 0x1003, 0x1004]"
    and "take (length data - 5) data = regular"
    unfolding len by (simp_all add: data)
  moreover have "capacity format_type \<le> length data"
    using cap len by linarith
  ultimately show ?thesis
    using reg lut len by simp
qed

theorem palette_table_magic_tail_witness:
  "convert_by_format keep_image set_size PALETTE_16 (indexed_image [255, 0, 0, 0, 255, 0])
   = Inr (Some [0xF800, 0x07E0, 0, 0, 0, 0, 0, 0, 0, 0, 0, 0x1000, 0x1001, 0x1002, 0x1003, 0x1004])
   \<and> regular_colors keep_image set_size PALETTE_16 (indexed_image [255, 0, 0, 0, 255, 0])
     = Some [0xF800, 0x07E0, 0, 0, 0, 0, 0, 0, 0, 0, 0]"
proof -
  let ?img = "indexed_image [255, 0, 0, 0, 255, 0]"
  have reg: "palette_regular keep_image ?img 16 = Some [0xF800, 0x07E0, 0, 0, 0, 0, 0, 0, 0, 0, 0]"
    by (simp add: palette_regular_def palette_data_of_def py_prefix_def pad_palette_def
          rgb888_to_rgb565_def numeral_eq_Suc indexed_image_def keep_image_def)
  then have conv: "convert_by_format keep_image set_size PALETTE_16 ?img
      = Inr (Some [0xF800, 0x07E0, 0, 0, 0, 0, 0, 0, 0, 0, 0, 0x1000, 0x1001, 0x1002, 0x1003, 0x1004])"
    by (simp add: convert_by_format_def convert_to_palette_def magic_colors_def)
  from palette_table_magic_tail [OF conv] conv show ?thesis
    by simp
qed

section \<open>Properties of the bundle container\<close>





text \<open>
  Claim C1 fails on the code.  The writer puts the entry table after the 12-byte header
  and the configuration, at offset 12 + config size; \<^verbatim>\<open>extract_asset\<close> looks for it
  at the fixed offset 16.  With the 6-byte configuration \<^verbatim>\<open>ver: 1\<close> the asset
  \<^verbatim>\<open>a.wash\<close>, written with the payload \<^verbatim>\<open>abc\<close>, is reported as not found; the two
  layouts agree only for a configuration of exactly 4 bytes, as \<^verbatim>\<open>v: 1\<close>.
\<close>

theorem extract_misses_written_asset:
  "collected (one_asset_folder ''ver: 1'') = Inr ([''a.wash''], [''abc''])
   \<and> build_and_extract (one_asset_folder ''ver: 1'') ''a.wash'' = Inr None
   \<and> build_and_extract (one_asset_folder ''v: 1'') ''a.wash'' = Inr (Some ''abc'')"
  by code_simp

text \<open>
  Claim C9, as stated, fails for the ROM builder: a \<^verbatim>\<open>WispROMBuilder\<close> that was
  given one asset and no configuration builds a container, with configuration size 0.
\<close>

theorem build_rom_without_config_counterexample:
  "rb_config_data one_asset_builder = []
   \<and> build_rom one_asset_builder = Inr
     (''WISP'' @ [CHR 0x01, CHR 0x00, CHR 0x00, CHR 0x00, CHR 0x01, CHR 0x00, CHR 0x00, CHR 0x00,
                 CHR 0x00, CHR 0x00, CHR 0x00, CHR 0x00]
      @ ''a.dat'' @ replicate 27 (CHR 0x00)
      @ [CHR 0x00, CHR 0x00, CHR 0x00, CHR 0x00, CHR 0x01, CHR 0x00, CHR 0x00, CHR 0x00,
         CHR 0x06, CHR 0x00] @ replicate 6 (CHR 0x00) @ ''x'')"
  by code_simp

text \<open>
  Claim C9, amended.  In the bundle builder (\<^verbatim>\<open>collect_assets\<close> followed by
  \<^verbatim>\<open>write_wisp_bundle\<close>), for every set of asset files, a folder that supplies no
  configuration (neither \<^verbatim>\<open>config.yaml\<close> nor \<^verbatim>\<open>config.yml\<close>, or an empty one) makes
  the build raise \<^verbatim>\<open>FileNotFoundError\<close>, and nothing is written.
\<close>

theorem build_bundle_requires_config:
  assumes "config_yaml root_folder = None \<and> config_yml root_folder = None
           \<or> config_yaml root_folder = Some []
           \<or> config_yaml root_folder = None \<and> config_yml root_folder = Some []"
  shows "collect_assets root_folder = Inl FileNotFoundError
         \<and> build_bundle root_folder = Inl FileNotFoundError"
  using assms by (auto simp: collect_assets_def build_bundle_def bind_err_def)

theorem build_bundle_requires_config_witness:
  "collect_assets (unconfigured_folder [a_wash]) = Inl FileNotFoundError
   \<and> build_bundle (unconfigured_folder [a_wash]) = Inl FileNotFoundError"
proof -
  have "config_yaml (unconfigured_folder [a_wash]) = None
      \<and> config_yml (unconfigured_folder [a_wash]) = None"
    by (simp add: unconfigured_folder_def)
  then show ?thesis
    using build_bundle_requires_config [of "unconfigured_folder [a_wash]"] by simp
qed

section \<open>Properties of the keyed record database\<close>

lemma struct_pack_length:
  "struct_pack fmt vals = Inr packed \<Longrightarrow>
   length vals = length (filter (\<lambda>f. case f of Fmt_x n \<Rightarrow> False | _ \<Rightarrow> True) fmt)"
  by (induction fmt vals arbitrary: packed rule: struct_pack.induct)
     (auto simp: bind_err_def split: sum.splits)

lemma struct_pack_error:
  "struct_pack fmt vals = Inl e \<Longrightarrow> e = StructError"
  by (induction fmt vals arbitrary: e rule: struct_pack.induct)
     (auto simp: bind_err_def pack_uint_def split: sum.splits if_splits)

lemma header_pack_raises:
  "struct_pack header_format [v1, v2, v3, v4, v5, v6, v7, v8, v9, v10, v11, v12] = Inl StructError"
proof (cases "struct_pack header_format [v1, v2, v3, v4, v5, v6, v7, v8, v9, v10, v11, v12]")
  case (Inl e)
  then show ?thesis using struct_pack_error [OF Inl] by simp
next
  case (Inr packed)
  from struct_pack_length [OF this] show ?thesis
    by (simp add: header_format_def)
qed

lemma generate_rom_raises: "isl (generate_rom self)"
  by (auto simp: generate_rom_def bind_err_def header_pack_raises Let_def split: sum.splits prod.splits)

text \<open>
  Claim C8 fails on the code.  For the database with the one item \<open>potion\<close> (name
  \<^verbatim>\<open>ab\<close>, description \<^verbatim>\<open>cd\<close>) \<^verbatim>\<open>generate_rom\<close> raises \<^verbatim>\<open>struct.error\<close>, as it does for
  every input, so no database reaches the output.  The entry packed for the item
  refers to its description by the number 1, its position in the pool, while in the
  serialised pool (\<^verbatim>\<open>ab\<close>, a zero byte, \<^verbatim>\<open>cd\<close>, a zero byte) the description starts at byte 3; and the pool is
  serialised before the item has interned its strings, when it is still empty.
\<close>

theorem generate_rom_string_refs:
  "generate_rom one_item_builder = Inl StructError
   \<and> serialize_pool (string_pool one_item_builder) = []
   \<and> item_entry [] potion
      = Inr (0x01010001,
             [CHR 0x01, CHR 0x00, CHR 0x01, CHR 0x01, CHR 0x06, CHR 0x01, CHR 0x0A, CHR 0x00,
              CHR 0x00, CHR 0x00, CHR 0x01, CHR 0x01, CHR 0x00, CHR 0x00, CHR 0x00, CHR 0x00,
              CHR 0x01, CHR 0x00],
             [(''ab'', 0), (''cd'', 1)])
   \<and> serialize_pool [(''ab'', 0), (''cd'', 1)] = ''ab'' @ [CHR 0x00] @ ''cd'' @ [CHR 0x00]
   \<and> pool_byte_offset [''ab'', ''cd''] ''cd'' = Some 3"
  by code_simp

end
